theory Spec2Isabelle
  imports Complex_Main "HOL-Library.Log_Nat" "HOL-Library.AList"
begin

section \<open>Overview\<close>

text \<open>
  A shallow embedding of \<open>quadratic_bezier_line.js\<close>: the class \<open>QuadraticBezierLine\<close>,
  a map overlay that draws a quadratic Bezier curve between two coordinates as a
  polyline. The constructor resolves a control point, samples the curve at evenly spaced
  parameters and hands the points to the polyline base class.

  The object is a record; a method takes the object and, where it assigns to a field,
  returns the updated object. The \<open>for\<close> loop is a recursive function on its counter.
  Numbers are IEEE 754 binary64 values with their rounding, so that statements about
  exact equality of computed coordinates mean what they mean for the program.
\<close>

section \<open>JavaScript numbers\<close>

text \<open>
  Every number of the program is a JavaScript Number, an IEEE 754 binary64 value. A
  finite value is carried as the rational it denotes; the two infinities and NaN are
  values of their own. Each arithmetic operation computes the exact rational result and
  rounds it to the nearest binary64 value, ties to even, with gradual underflow below
  \<open>2\<^sup>-\<^sup>1\<^sup>0\<^sup>2\<^sup>2\<close> and overflow to an infinity from \<open>2\<^sup>1\<^sup>0\<^sup>2\<^sup>4\<close> on. Division by zero raises
  nothing: it yields an infinity or NaN. The two zeros are identified, as \<open>===\<close> does:
  the only divisors of the program are the literal \<open>2.0\<close> and the step count, so no
  division can tell them apart.
\<close>

datatype jsnum = Fin rat | PInf | NInf | NaN

text \<open>\<open>expo x\<close> is the binary exponent \<open>\<lfloor>log\<^sub>2 \<bar>x\<bar>\<rfloor>\<close> of a non-zero rational.\<close>

definition expo :: "rat \<Rightarrow> int" where
  "expo x = (let (p, q) = quotient_of x; d = bitlen \<bar>p\<bar> - bitlen q
             in if 2 powi d \<le> \<bar>x\<bar> then d else d - 1)"

text \<open>Rounding to the nearest integer, a tie going to the even neighbour.\<close>

definition round_half_even :: "rat \<Rightarrow> int" where
  "round_half_even q = (let f = \<lfloor>q\<rfloor>; d = q - of_int f
            in if d < 1 / 2 then f else if 1 / 2 < d then f + 1
               else if even f then f else f + 1)"

text \<open>
  Rounding to binary64: 53 significant bits, the exponent never below \<open>-1022\<close>
  (subnormal values share the spacing \<open>2\<^sup>-\<^sup>1\<^sup>0\<^sup>7\<^sup>4\<close>).
\<close>

definition round64 :: "rat \<Rightarrow> jsnum" where
  "round64 x = (let e = max (expo x) (- 1022); u = 2 powi (e - 52);
                    r = of_int (round_half_even (x / u)) * u
                in if 2 powi 1024 \<le> r then PInf
                   else if r \<le> - (2 powi 1024) then NInf else Fin r)"

fun jneg :: "jsnum \<Rightarrow> jsnum" where
  "jneg (Fin a) = Fin (- a)"
| "jneg PInf = NInf"
| "jneg NInf = PInf"
| "jneg NaN = NaN"

text \<open>The sign of a value (\<open>0\<close> for zero and for NaN), used for products with an infinity.\<close>

fun jsign :: "jsnum \<Rightarrow> int" where
  "jsign (Fin a) = (if a = 0 then 0 else if 0 < a then 1 else - 1)"
| "jsign PInf = 1"
| "jsign NInf = - 1"
| "jsign NaN = 0"

fun jadd :: "jsnum \<Rightarrow> jsnum \<Rightarrow> jsnum" where
  "jadd (Fin a) (Fin b) = round64 (a + b)"
| "jadd NaN b = NaN"
| "jadd a NaN = NaN"
| "jadd PInf NInf = NaN"
| "jadd NInf PInf = NaN"
| "jadd PInf b = PInf"
| "jadd NInf b = NInf"
| "jadd a PInf = PInf"
| "jadd a NInf = NInf"

definition jsub :: "jsnum \<Rightarrow> jsnum \<Rightarrow> jsnum" where
  "jsub a b = jadd a (jneg b)"

fun jmul :: "jsnum \<Rightarrow> jsnum \<Rightarrow> jsnum" where
  "jmul (Fin a) (Fin b) = round64 (a * b)"
| "jmul NaN b = NaN"
| "jmul a NaN = NaN"
| "jmul a b = (let s = jsign a * jsign b
               in if s = 0 then NaN else if 0 < s then PInf else NInf)"

fun jdiv :: "jsnum \<Rightarrow> jsnum \<Rightarrow> jsnum" where
  "jdiv (Fin a) (Fin b) =
     (if b = 0 then (if a = 0 then NaN else if 0 < a then PInf else NInf)
      else round64 (a / b))"
| "jdiv NaN b = NaN"
| "jdiv a NaN = NaN"
| "jdiv (Fin a) b = Fin 0"
| "jdiv a (Fin b) = (if 0 \<le> b then a else jneg a)"
| "jdiv a b = NaN"

text \<open>
  A loop counter or a step count is a Number holding a non-negative integer; it is
  modelled by a natural number (exact in binary64 below \<open>2\<^sup>5\<^sup>3\<close>, far beyond any array
  the loop can build) and enters the arithmetic through \<open>num\<close>.
\<close>

definition num :: "nat \<Rightarrow> jsnum" where
  "num n = Fin (of_nat n)"

text \<open>Predicates on numbers used to state which inputs a property is about.\<close>

definition finite_num :: "jsnum \<Rightarrow> bool" where
  "finite_num v = (case v of Fin x \<Rightarrow> True | _ \<Rightarrow> False)"

text \<open>
  A well-formed coordinate value: a finite binary64 value whose magnitude is at most
  \<open>2\<^sup>1\<^sup>0\<^sup>2\<^sup>1\<close> (every geographic latitude or longitude in degrees is).
\<close>

definition coord :: "jsnum \<Rightarrow> bool" where
  "coord v = (case v of Fin x \<Rightarrow> round64 x = Fin x \<and> \<bar>x\<bar> \<le> 2 powi 1021 | _ \<Rightarrow> False)"

text \<open>
  A coordinate value in the range where a quarter of it is still a normal binary64
  value: a well-formed coordinate that is zero or of magnitude at least \<open>2\<^sup>-\<^sup>1\<^sup>0\<^sup>2\<^sup>0\<close>.
\<close>

definition normal_coord :: "jsnum \<Rightarrow> bool" where
  "normal_coord v = (case v of
       Fin x \<Rightarrow> round64 x = Fin x \<and> (x = 0 \<or> 2 powi (- 1020) \<le> \<bar>x\<bar>) \<and> \<bar>x\<bar> \<le> 2 powi 1021
     | _ \<Rightarrow> False)"

section \<open>Coordinates, values and objects\<close>

text \<open>
  Modelled from the spec: \<open>GLatLng\<close> is a class of the host mapping library and is not in
  the repository. Following the spec's \<open>Coordinate\<close>, it is a pair of numbers (latitude,
  longitude) that the constructor stores as given and the accessors \<open>lat()\<close> and \<open>lng()\<close>
  return unchanged.
\<close>

record latlng =
  lat :: jsnum
  lng :: jsnum

definition finite_latlng :: "latlng \<Rightarrow> bool" where
  "finite_latlng p = (finite_num (lat p) \<and> finite_num (lng p))"

definition wf_latlng :: "latlng \<Rightarrow> bool" where
  "wf_latlng p = (coord (lat p) \<and> coord (lng p))"

definition normal_latlng :: "latlng \<Rightarrow> bool" where
  "normal_latlng p = (normal_coord (lat p) \<and> normal_coord (lng p))"

text \<open>The JavaScript values an option can hold.\<close>

datatype jsval = JUndefined | JNull | JBool bool | JNum jsnum | JStr string | JLatLng latlng

fun truthy :: "jsval \<Rightarrow> bool" where
  "truthy JUndefined = False"
| "truthy JNull = False"
| "truthy (JBool b) = b"
| "truthy (JNum n) = (n \<noteq> Fin 0 \<and> n \<noteq> NaN)"
| "truthy (JStr s) = (s \<noteq> [])"
| "truthy (JLatLng p) = True"

text \<open>
  A plain object, as an object literal or \<open>JSON.parse\<close> creates it: the list of its own
  enumerable properties in the order \<open>for ... in\<close> visits them, each holding a data value
  (no function), with \<open>Object.prototype\<close> as its prototype.
\<close>

type_synonym jsobject = "(string \<times> jsval) list"

text \<open>
  The property names of \<open>Object.prototype\<close>: its methods and the accessor \<open>__proto__\<close>.
  None of them is enumerable, so \<open>for ... in\<close> never visits them.
\<close>

definition object_prototype :: "string list" where
  "object_prototype =
     [''constructor'', ''toString'', ''toLocaleString'', ''valueOf'', ''hasOwnProperty'',
      ''isPrototypeOf'', ''propertyIsEnumerable'', ''__defineGetter__'', ''__defineSetter__'',
      ''__lookupGetter__'', ''__lookupSetter__'', ''__proto__'']"

text \<open>
  What reading a property yields: a data value, or what \<open>Object.prototype\<close> supplies under
  that name (one of its methods, or, for \<open>__proto__\<close>, \<open>Object.prototype\<close> itself). The
  latter are objects, hence truthy.
\<close>

datatype jsany = Data jsval | FromPrototype string

fun truthy_any :: "jsany \<Rightarrow> bool" where
  "truthy_any (Data v) = truthy v"
| "truthy_any (FromPrototype name) = True"

text \<open>\<open>a || b\<close>: the left operand when it is truthy, the right operand otherwise.\<close>

definition js_or :: "jsany \<Rightarrow> jsany \<Rightarrow> jsany" where
  "js_or a b = (if truthy_any a then a else b)"

text \<open>
  \<open>obj[attr]\<close>: the own property when there is one; otherwise the lookup follows the
  prototype chain to \<open>Object.prototype\<close>; a name found nowhere reads as \<open>undefined\<close>.
\<close>

definition get_prop :: "jsobject \<Rightarrow> string \<Rightarrow> jsany" where
  "get_prop obj attr = (case map_of obj attr of
       Some v \<Rightarrow> Data v
     | None \<Rightarrow> if attr \<in> set object_prototype then FromPrototype attr else Data JUndefined)"

text \<open>
  \<open>obj.hasOwnProperty(attr)\<close>. The method is itself looked up on \<open>obj\<close>: an own property
  named \<open>hasOwnProperty\<close> shadows the method of \<open>Object.prototype\<close>, and as it holds a
  data value the call throws a \<open>TypeError\<close>. Otherwise the inherited method answers
  whether \<open>attr\<close> is an own property.
\<close>

datatype js_error = TypeError

definition call_hasOwnProperty :: "jsobject \<Rightarrow> string \<Rightarrow> js_error + bool" where
  "call_hasOwnProperty obj attr = (case map_of obj ''hasOwnProperty'' of
       Some v \<Rightarrow> Inl TypeError
     | None \<Rightarrow> Inr (map_of obj attr \<noteq> None))"

text \<open>
  \<open>o[attr] = v\<close> on the object under construction, which starts as \<open>{}\<close>. The assignment
  creates or overwrites an own property, except for the name \<open>__proto__\<close>: that assignment
  goes to the setter inherited from \<open>Object.prototype\<close>, which creates no property. The
  model records the own properties of \<open>o\<close>.
\<close>

definition set_prop :: "(string \<times> jsany) list \<Rightarrow> string \<Rightarrow> jsany \<Rightarrow> (string \<times> jsany) list" where
  "set_prop o' attr v = (if attr = ''__proto__'' then o' else AList.update attr v o')"

text \<open>
  The loop \<open>for (var attr in defaults)\<close> of \<open>mergeOptions\<close>, over the keys still to visit;
  an exception ends it.
\<close>

fun merge_loop ::
  "jsobject \<Rightarrow> jsobject \<Rightarrow> (string \<times> jsany) list \<Rightarrow> jsobject \<Rightarrow> js_error + (string \<times> jsany) list" where
  "merge_loop opts defaults o' [] = Inr o'"
| "merge_loop opts defaults o' ((attr, _) # rest) =
     (case call_hasOwnProperty defaults attr of
        Inl e \<Rightarrow> Inl e
      | Inr own \<Rightarrow>
          merge_loop opts defaults
            (if own then set_prop o' attr (js_or (get_prop opts attr) (get_prop defaults attr)) else o')
            rest)"

text \<open>
  \<open>QuadraticBezierLine.mergeOptions\<close>. An absent \<open>opts\<close> (\<open>null\<close> or \<open>undefined\<close>) is
  \<open>None\<close>, and then the result is \<open>defaults\<close> itself; otherwise \<open>opts\<close> is a plain
  object and the result is the object the loop builds.
\<close>

fun mergeOptions :: "jsobject option \<Rightarrow> jsobject \<Rightarrow> js_error + (string \<times> jsany) list" where
  "mergeOptions None defaults = Inr (map (\<lambda>(attr, v). (attr, Data v)) defaults)"
| "mergeOptions (Some opts) defaults = merge_loop opts defaults [] defaults"

section \<open>The curve object\<close>

text \<open>
  An options object with the six recognised options. The step count is a non-negative
  integer; a control point that is not given is \<open>null\<close> (\<open>None\<close>).
\<close>

record options =
  color :: string
  opacity :: jsnum
  weight :: jsnum
  steps :: nat
  controlPoint :: "latlng option"
  curveFactor :: jsnum

text \<open>
  \<open>QuadraticBezierLine.defaults\<close>. The literals \<open>0.6\<close> and \<open>0.4\<close> denote the binary64
  values nearest to them.
\<close>

definition QuadraticBezierLine_defaults :: options where
  "QuadraticBezierLine_defaults =
     \<lparr>color = ''#ff0000'', opacity = round64 (6 / 10), weight = Fin 5, steps = 20,
      controlPoint = None, curveFactor = round64 (4 / 10)\<rparr>"

text \<open>The defaults as the plain object \<open>mergeOptions\<close> would receive.\<close>

definition options_object :: "options \<Rightarrow> jsobject" where
  "options_object opts' =
     [(''color'', JStr (color opts')), (''opacity'', JNum (opacity opts')),
      (''weight'', JNum (weight opts')), (''steps'', JNum (num (steps opts'))),
      (''controlPoint'', (case controlPoint opts' of None \<Rightarrow> JNull | Some p \<Rightarrow> JLatLng p)),
      (''curveFactor'', JNum (curveFactor opts'))]"

text \<open>
  Modelled from the spec: \<open>GPolyline\<close> is the overlay class of the host mapping library
  and is not in the repository; the spec calls it the external overlay-rendering
  collaborator. The model records the four arguments the constructor hands to it.
\<close>

record gpolyline =
  latlngs :: "latlng list"
  line_color :: string
  line_weight :: jsnum
  line_opacity :: jsnum

text \<open>
  The fields of a \<open>QuadraticBezierLine\<close>. \<open>points\<close> is \<open>null\<close> (\<open>None\<close>) until the
  sequence is computed, \<open>middlePoint\<close> is unset until the loop records it, \<open>overlay\<close> is
  the part initialised by \<open>GPolyline.call\<close>.
\<close>

record qbl =
  from_pt :: latlng
  to_pt :: latlng
  opts :: options
  control :: latlng
  points :: "latlng list option"
  middlePoint :: "latlng option"
  overlay :: "gpolyline option"

text \<open>\<open>QuadraticBezierLine.prototype.bezier\<close>.\<close>

definition bezier :: "qbl \<Rightarrow> jsnum \<Rightarrow> (latlng \<Rightarrow> jsnum) \<Rightarrow> jsnum" where
  "bezier self t getValue =
     jadd (jadd (jmul (jmul (jsub (Fin 1) t) (jsub (Fin 1) t)) (getValue (from_pt self)))
                (jmul (jmul (jmul (Fin 2) t) (jsub (Fin 1) t)) (getValue (control self))))
          (jmul (jmul t t) (getValue (to_pt self)))"

text \<open>\<open>QuadraticBezierLine.prototype.getPoint\<close>.\<close>

definition getPoint :: "qbl \<Rightarrow> jsnum \<Rightarrow> latlng" where
  "getPoint self t = (let lat' = bezier self t lat; lng' = bezier self t lng
                      in \<lparr>lat = lat', lng = lng'\<rparr>)"

text \<open>
  \<open>QuadraticBezierLine.prototype.calculateControlPoint\<close>. The method reads
  \<open>this.from\<close>, \<open>this.to\<close> and \<open>this.opts\<close>; the constructor calls it before
  \<open>this.control\<close> exists, so the model takes the three fields it reads.
\<close>

definition calculateControlPoint :: "latlng \<Rightarrow> latlng \<Rightarrow> options \<Rightarrow> latlng" where
  "calculateControlPoint from to opts' =
     (let factor = curveFactor opts';
          middle_lat = jdiv (jadd (lat from) (lat to)) (Fin 2);
          middle_lng = jdiv (jadd (lng from) (lng to)) (Fin 2)
      in \<lparr>lat = jadd (jmul (jsub middle_lng (lng to)) factor) middle_lat,
          lng = jadd (jmul (jsub (lat to) middle_lat) factor) middle_lng\<rparr>)"

text \<open>The parameter \<open>t * (1 / steps)\<close> the loop passes to \<open>getPoint\<close>.\<close>

definition param :: "nat \<Rightarrow> nat \<Rightarrow> jsnum" where
  "param t steps' = jmul (num t) (jdiv (Fin 1) (num steps'))"

text \<open>
  The local variable \<open>steps\<close> of \<open>getPolylinePoints\<close>: the configured step count,
  made even.
\<close>

definition effective_steps :: "nat \<Rightarrow> nat" where
  "effective_steps s = (if s mod 2 = 0 then s else s + 1)"

text \<open>
  \<open>self.points.push(pt)\<close>; \<open>self.points\<close> is the array assigned just before the loop.
\<close>

definition push :: "latlng \<Rightarrow> qbl \<Rightarrow> qbl" where
  "push pt self = self\<lparr>points := map_option (\<lambda>ps. ps @ [pt]) (points self)\<rparr>"

text \<open>
  The \<open>for\<close> loop of \<open>getPolylinePoints\<close>, from counter \<open>t\<close> on. \<open>steps'\<close> is even
  there, so \<open>steps / 2\<close> is the integer \<open>steps' div 2\<close>.
\<close>

function sample_loop :: "qbl \<Rightarrow> nat \<Rightarrow> nat \<Rightarrow> qbl" where
  "sample_loop self steps' t =
     (if t \<le> steps'
      then let pt = getPoint self (param t steps');
               self1 = (if t = steps' div 2 then self\<lparr>middlePoint := Some pt\<rparr> else self)
           in sample_loop (push pt self1) steps' (t + 1)
      else self)"
  by pat_completeness auto
termination
  by (relation "measure (\<lambda>(self, steps', t). steps' + 1 - t)") auto

declare sample_loop.simps [simp del]

text \<open>
  \<open>QuadraticBezierLine.prototype.getPolylinePoints\<close>: the returned array and the
  object after the call. An array is truthy even when empty, so a computed sequence is
  always the one returned. \<open>self.points\<close> holds the array throughout the loop, so the
  \<open>None\<close> branch of the final read is never taken.
\<close>

definition getPolylinePoints :: "qbl \<Rightarrow> latlng list \<times> qbl" where
  "getPolylinePoints self =
     (case points self of
        Some ps \<Rightarrow> (ps, self)
      | None \<Rightarrow>
          (let self1 = self\<lparr>points := Some []\<rparr>;
               steps' = effective_steps (steps (opts self1));
               self2 = sample_loop self1 steps' 0
           in (case points self2 of Some ps \<Rightarrow> ps | None \<Rightarrow> [], self2)))"

text \<open>
  The object as the constructor has it after assigning \<open>from\<close>, \<open>to\<close>, \<open>opts\<close>,
  \<open>control\<close> and \<open>points\<close>, for the options object \<open>opts'\<close> that \<open>this.opts\<close> is
  bound to. An explicit control point is an object, hence truthy, and is taken as it is;
  \<open>null\<close> lets \<open>||\<close> fall through to \<open>calculateControlPoint\<close>.
\<close>

definition new_curve :: "latlng \<Rightarrow> latlng \<Rightarrow> options \<Rightarrow> qbl" where
  "new_curve from to opts' =
     \<lparr>from_pt = from, to_pt = to, opts = opts',
      control = (case controlPoint opts' of
                   Some p \<Rightarrow> p
                 | None \<Rightarrow> calculateControlPoint from to opts'),
      points = None, middlePoint = None, overlay = None\<rparr>"

text \<open>
  The constructor \<open>QuadraticBezierLine(from, to, opts)\<close>. The call that would merge
  \<open>opts\<close> into the defaults is commented out in the source: \<open>this.opts\<close> is the
  defaults object itself, whatever \<open>opts\<close> is. The last statement computes the point
  sequence and hands it, with the three styling options, to \<open>GPolyline\<close>.
\<close>

definition QuadraticBezierLine :: "latlng \<Rightarrow> latlng \<Rightarrow> jsobject option \<Rightarrow> qbl" where
  "QuadraticBezierLine from to user_opts =
     (let self = new_curve from to QuadraticBezierLine_defaults;
          (pts, self1) = getPolylinePoints self
      in self1\<lparr>overlay := Some \<lparr>latlngs = pts, line_color = color (opts self1),
                                 line_weight = weight (opts self1),
                                 line_opacity = opacity (opts self1)\<rparr>\<rparr>)"

section \<open>The specification's control point\<close>

text \<open>
  The spec's \<open>resolveControlPoint\<close>, in its words: \<open>m\<close> is the arithmetic midpoint
  \<open>((from.lat + to.lat) / 2, (from.lng + to.lng) / 2)\<close>; the control point's first
  coordinate is \<open>(m.lng - to.lng) * curveFactor + m.lat\<close> and its second coordinate is
  \<open>(to.lat - m.lat) * curveFactor + m.lng\<close>.
\<close>

definition spec_midpoint :: "latlng \<Rightarrow> latlng \<Rightarrow> latlng" where
  "spec_midpoint from to =
     \<lparr>lat = jdiv (jadd (lat from) (lat to)) (Fin 2),
      lng = jdiv (jadd (lng from) (lng to)) (Fin 2)\<rparr>"

definition spec_resolveControlPoint :: "latlng \<Rightarrow> latlng \<Rightarrow> jsnum \<Rightarrow> latlng" where
  "spec_resolveControlPoint from to curveFactor' =
     (let m = spec_midpoint from to
      in \<lparr>lat = jadd (jmul (jsub (lng m) (lng to)) curveFactor') (lat m),
          lng = jadd (jmul (jsub (lat to) (lat m)) curveFactor') (lng m)\<rparr>)"

section \<open>Facts about rounding\<close>

lemma pow2_bitlen:
  assumes "0 < n"
  shows "(2::rat) powi (bitlen n - 1) \<le> of_int n" and "of_int n < (2::rat) powi bitlen n"
proof -
  from bitlen_bounds[OF assms] have a: "2 ^ nat (bitlen n - 1) \<le> n" and b: "n < 2 ^ nat (bitlen n)" by auto
  have ge1: "1 \<le> bitlen n" using assms by (simp add: bitlen_alt_def)
  have "(of_int (2 ^ nat (bitlen n - 1)) :: rat) \<le> of_int n" using a by (simp only: of_int_le_iff)
  then show "(2::rat) powi (bitlen n - 1) \<le> of_int n" using ge1 by (simp add: power_int_def)
  have "(of_int n :: rat) < of_int (2 ^ nat (bitlen n))" using b by (simp only: of_int_less_iff)
  then show "of_int n < (2::rat) powi bitlen n" using ge1 by (simp add: power_int_def)
qed

lemma pow2_pos: "0 < (2::rat) powi k"
  by (simp add: power_int_def)

lemma pow2_add: "(2::rat) powi (a + b) = 2 powi a * 2 powi b"
  by (simp add: power_int_add)

lemma pow2_diff: "(2::rat) powi (a - b) = 2 powi a / 2 powi b"
  by (simp add: power_int_diff)

lemma pow2_mono: "a \<le> b \<Longrightarrow> (2::rat) powi a \<le> 2 powi b"
  by (simp add: power_int_increasing)

lemma pow2_less_iff: "(2::rat) powi a < 2 powi b \<longleftrightarrow> a < b"
proof
  assume "(2::rat) powi a < 2 powi b"
  show "a < b"
  proof (rule ccontr)
    assume "\<not> a < b"
    then have "b \<le> a" by simp
    then have "(2::rat) powi b \<le> 2 powi a" by (rule pow2_mono)
    with \<open>(2::rat) powi a < 2 powi b\<close> show False by simp
  qed
next
  assume "a < b" then show "(2::rat) powi a < 2 powi b"
    by (simp add: power_int_strict_increasing)
qed

lemma expo_bounds:
  assumes "x \<noteq> 0"
  shows "2 powi expo x \<le> \<bar>x\<bar>" and "\<bar>x\<bar> < 2 powi (expo x + 1)"
proof -
  obtain p q where pq: "quotient_of x = (p, q)" by (cases "quotient_of x")
  have q: "0 < q" using pq by (rule quotient_of_denom_pos)
  have x: "x = of_int p / of_int q" using pq by (rule quotient_of_div)
  have p: "0 < \<bar>p\<bar>" using assms x by auto
  have ax: "\<bar>x\<bar> = of_int \<bar>p\<bar> / of_int q" using x q by simp
  define d where "d = bitlen \<bar>p\<bar> - bitlen q"
  have e: "expo x = (if 2 powi d \<le> \<bar>x\<bar> then d else d - 1)"
    by (simp add: expo_def pq d_def Let_def)
  have qpos: "(0::rat) < of_int q" using q by simp
  have lo: "(2::rat) powi (d - 1) < \<bar>x\<bar>"
  proof -
    have "(2::rat) powi (d - 1) * of_int q < 2 powi (d - 1) * 2 powi bitlen q"
      using pow2_bitlen(2)[OF q] pow2_pos by simp
    also have "\<dots> = 2 powi (bitlen \<bar>p\<bar> - 1)"
      by (simp add: d_def pow2_add[symmetric])
    also have "\<dots> \<le> of_int \<bar>p\<bar>" using pow2_bitlen(1)[OF p] .
    finally show ?thesis using qpos by (simp add: ax pos_less_divide_eq)
  qed
  have hi: "\<bar>x\<bar> < (2::rat) powi (d + 1)"
  proof -
    have "(of_int \<bar>p\<bar> :: rat) < 2 powi bitlen \<bar>p\<bar>" using pow2_bitlen(2)[OF p] .
    also have "\<dots> = 2 powi (d + 1) * 2 powi (bitlen q - 1)"
      by (simp add: d_def pow2_add[symmetric])
    also have "\<dots> \<le> 2 powi (d + 1) * of_int q"
      using pow2_bitlen(1)[OF q] pow2_pos by simp
    finally show ?thesis using qpos by (simp add: ax pos_divide_less_eq)
  qed
  show "2 powi expo x \<le> \<bar>x\<bar>" using lo by (simp add: e)
  show "\<bar>x\<bar> < 2 powi (expo x + 1)" using hi by (auto simp: e not_le)
qed

lemma expo_le:
  assumes "x \<noteq> 0" and "\<bar>x\<bar> < 2 powi (k + 1)"
  shows "expo x \<le> k"
proof -
  have "(2::rat) powi expo x < 2 powi (k + 1)"
    using expo_bounds(1)[OF assms(1)] assms(2) by simp
  then show ?thesis by (simp add: pow2_less_iff)
qed

lemma expo_ge:
  assumes "2 powi k \<le> \<bar>x\<bar>"
  shows "k \<le> expo x"
proof -
  have "0 < \<bar>x\<bar>" using pow2_pos[of k] assms by (rule less_le_trans)
  then have nz: "x \<noteq> 0" by simp
  have "(2::rat) powi k < 2 powi (expo x + 1)"
    using expo_bounds(2)[OF nz] assms by simp
  then show ?thesis by (simp add: pow2_less_iff)
qed

lemma expo_0: "expo 0 = - 2"
  by code_simp




lemma round_half_even_of_int: "round_half_even (of_int m) = m"
  by (simp add: round_half_even_def)

lemma round_half_even_cases: "round_half_even q = \<lfloor>q\<rfloor> \<or> round_half_even q = \<lfloor>q\<rfloor> + 1"
  by (simp add: round_half_even_def Let_def)

lemma round_half_even_le:
  assumes "q \<le> of_int n"
  shows "round_half_even q \<le> n"
proof (cases "q = of_int n")
  case True
  then show ?thesis by (simp add: round_half_even_of_int)
next
  case False
  with assms have "q < of_int n" by simp
  then have "\<lfloor>q\<rfloor> < n" by (simp add: floor_less_iff)
  then show ?thesis using round_half_even_cases[of q] by auto
qed

lemma round_half_even_ge:
  assumes "of_int n \<le> q"
  shows "n \<le> round_half_even q"
proof -
  have "n \<le> \<lfloor>q\<rfloor>" using assms by (simp add: le_floor_iff)
  then show ?thesis using round_half_even_cases[of q] by auto
qed

lemma round_half_even_abs_le:
  assumes "\<bar>q\<bar> \<le> of_int n"
  shows "\<bar>round_half_even q\<bar> \<le> n"
proof -
  have "q \<le> of_int n" and "of_int (- n) \<le> q" using assms by auto
  then have "round_half_even q \<le> n" and "- n \<le> round_half_even q" by (auto intro: round_half_even_le round_half_even_ge)
  then show ?thesis by simp
qed

lemma pow2_shift: "0 \<le> j \<Longrightarrow> (2::rat) powi a = of_int (2 ^ nat j) * 2 powi (a - j)"
proof -
  assume j: "0 \<le> j"
  have "(2::rat) powi a = 2 powi (j + (a - j))" by simp
  also have "\<dots> = 2 powi j * 2 powi (a - j)" by (rule pow2_add)
  also have "(2::rat) powi j = of_int (2 ^ nat j)" using j by (simp add: power_int_def)
  finally show ?thesis .
qed

lemma pow2_Suc: "(2::rat) powi (a + 1) = 2 * 2 powi a"
  by (simp add: power_int_add)

lemma round64_exact:
  assumes k: "x = of_int k * 2 powi (max (expo x) (- 1022) - 52)"
    and b: "\<bar>x\<bar> < 2 powi 1024"
  shows "round64 x = Fin x"
proof -
  define u :: rat where "u = 2 powi (max (expo x) (- 1022) - 52)"
  have u: "0 < u" by (simp add: u_def pow2_pos)
  have "x / u = of_int k" using k u by (simp add: u_def[symmetric])
  then have "of_int (round_half_even (x / u)) * u = x" using k by (simp add: round_half_even_of_int u_def[symmetric])
  moreover have "\<not> 2 powi 1024 \<le> x" and "\<not> x \<le> - (2 powi 1024)" using b by auto
  ultimately show ?thesis by (simp add: round64_def Let_def u_def[symmetric])
qed

lemma round64_grid:
  assumes r: "r = of_int m * 2 powi (e - 52)"
    and e: "- 1022 \<le> e"
    and le: "\<bar>r\<bar> \<le> 2 powi (e + 1)"
    and b: "\<bar>r\<bar> < 2 powi 1024"
  shows "round64 r = Fin r"
proof (cases "r = 0")
  case True
  have "(0::rat) = of_int 0 * 2 powi (max (expo 0) (- 1022) - 52)" by simp
  then show ?thesis using b unfolding True by (rule round64_exact)
next
  case nz: False
  show ?thesis
  proof (cases "\<bar>r\<bar> < 2 powi (e + 1)")
    case True
    have "expo r \<le> e" using nz True by (rule expo_le)
    then have e': "max (expo r) (- 1022) \<le> e" using e by simp
    define j where "j = e - max (expo r) (- 1022)"
    have j: "0 \<le> j" using e' by (simp add: j_def)
    have "(2::rat) powi (e - 52) = 2 powi j * 2 powi (max (expo r) (- 1022) - 52)"
      by (simp add: j_def pow2_add[symmetric])
    moreover have "(2::rat) powi j = of_int (2 ^ nat j)" using j by (simp add: power_int_def)
    ultimately have "r = of_int (m * 2 ^ nat j) * 2 powi (max (expo r) (- 1022) - 52)"
      using r by simp
    then show ?thesis using b by (rule round64_exact)
  next
    case False
    with le have eq: "\<bar>r\<bar> = 2 powi (e + 1)" by simp
    have "e + 1 \<le> expo r" by (rule expo_ge) (simp add: eq)
    moreover have "expo r \<le> e + 1"
      by (rule expo_le[OF nz]) (simp add: eq pow2_less_iff)
    ultimately have ex: "max (expo r) (- 1022) = e + 1" using e by simp
    have p: "(2::rat) powi (e + 1) = of_int (2 ^ nat 52) * 2 powi (e + 1 - 52)"
      by (rule pow2_shift) simp
    have "r = of_int (if 0 \<le> r then 2 ^ nat 52 else - (2 ^ nat 52)) * 2 powi (e + 1 - 52)"
    proof (cases "0 \<le> r")
      case True
      then have "r = 2 powi (e + 1)" using eq by simp
      then show ?thesis using True by (simp only: p if_True)
    next
      case False
      then have "r = - (2 powi (e + 1))" using eq by simp
      then show ?thesis using False by (simp only: p if_False of_int_minus mult_minus_left)
    qed
    then have "r = of_int (if 0 \<le> r then 2 ^ nat 52 else - (2 ^ nat 52)) * 2 powi (max (expo r) (- 1022) - 52)"
      by (simp only: ex)
    then show ?thesis using b by (rule round64_exact)
  qed
qed

lemma round64_FinD:
  assumes "round64 x = Fin r"
  shows "\<exists>m e. r = of_int m * 2 powi (e - 52) \<and> - 1022 \<le> e \<and> \<bar>r\<bar> \<le> 2 powi (e + 1) \<and> \<bar>r\<bar> < 2 powi 1024"
proof -
  define e where "e = max (expo x) (- 1022)"
  define u :: rat where "u = 2 powi (e - 52)"
  define m where "m = round_half_even (x / u)"
  have u: "0 < u" by (simp add: u_def pow2_pos)
  have r: "r = of_int m * u" and b1: "\<not> 2 powi 1024 \<le> r" and b2: "\<not> r \<le> - (2 powi 1024)"
    using assms by (auto simp: round64_def Let_def e_def[symmetric] u_def[symmetric] m_def[symmetric] split: if_splits)
  have b: "\<bar>r\<bar> < 2 powi 1024" using b1 b2 by auto
  have xe: "\<bar>x\<bar> < 2 powi (e + 1)"
  proof (cases "x = 0")
    case True then show ?thesis by (simp add: pow2_pos)
  next
    case False
    have "\<bar>x\<bar> < 2 powi (expo x + 1)" using False by (rule expo_bounds)
    also have "\<dots> \<le> 2 powi (e + 1)" by (rule pow2_mono) (simp add: e_def)
    finally show ?thesis .
  qed
  define c :: int where "c = 2 ^ nat 53"
  have "(2::rat) powi (e + 1) = of_int (2 ^ nat 53) * 2 powi (e + 1 - 53)"
    by (rule pow2_shift) simp
  moreover have "e + 1 - 53 = e - 52" by simp
  ultimately have p53: "(2::rat) powi (e + 1) = of_int c * u" by (simp only: u_def c_def)
  have "\<bar>x\<bar> / u < of_int c"
    using xe u unfolding p53 by (simp only: pos_divide_less_eq)
  then have "\<bar>x / u\<bar> \<le> of_int c" using u by (simp add: abs_divide)
  then have "\<bar>m\<bar> \<le> c" unfolding m_def by (rule round_half_even_abs_le)
  then have "(of_int \<bar>m\<bar> :: rat) \<le> of_int c" by (simp only: of_int_le_iff)
  then have "of_int \<bar>m\<bar> * u \<le> of_int c * u" using u by (simp only: mult_le_cancel_right_pos)
  then have "\<bar>r\<bar> \<le> of_int c * u" using u by (simp add: r abs_mult)
  then have "\<bar>r\<bar> \<le> 2 powi (e + 1)" by (simp only: p53)
  moreover have "- 1022 \<le> e" by (simp add: e_def)
  ultimately show ?thesis using r b unfolding u_def by blast
qed

lemma round64_idem:
  assumes "round64 x = Fin r"
  shows "round64 r = Fin r"
proof -
  from round64_FinD[OF assms] obtain m e where
    "r = of_int m * 2 powi (e - 52)" "- 1022 \<le> e" "\<bar>r\<bar> \<le> 2 powi (e + 1)" "\<bar>r\<bar> < 2 powi 1024"
    by blast
  then show ?thesis by (rule round64_grid)
qed

lemma round64_twice:
  assumes d: "round64 a = Fin a" and b: "\<bar>a\<bar> < 2 powi 1023"
  shows "round64 (a + a) = Fin (a + a)"
proof -
  from round64_FinD[OF d] obtain m e where
    a: "a = of_int m * 2 powi (e - 52)" and e: "- 1022 \<le> e" and le: "\<bar>a\<bar> \<le> 2 powi (e + 1)"
    by blast
  have "e + 1 - 52 = e - 52 + 1" by simp
  then have s: "(2::rat) powi (e + 1 - 52) = 2 * 2 powi (e - 52)"
    by (simp only: pow2_Suc)
  have s2: "(2::rat) powi (e + 1 + 1) = 2 * 2 powi (e + 1)"
    by (rule pow2_Suc)
  have "(1024::int) = 1023 + 1" by simp
  then have s3: "(2::rat) powi 1024 = 2 * 2 powi 1023"
    by (simp only: pow2_Suc)
  have "a + a = 2 * a" by simp
  also have "\<dots> = of_int m * (2 * 2 powi (e - 52))" by (subst a) simp
  finally have "a + a = of_int m * 2 powi (e + 1 - 52)" by (simp only: s)
  moreover have "- 1022 \<le> e + 1" using e by simp
  moreover have "\<bar>a + a\<bar> \<le> 2 powi (e + 1 + 1)" using le unfolding s2 by linarith
  moreover have "\<bar>a + a\<bar> < 2 powi 1024" using b unfolding s3 by linarith
  ultimately show ?thesis by (rule round64_grid)
qed

lemma round64_bound:
  assumes k0: "0 \<le> k" and k1: "k \<le> 1023" and x: "\<bar>x\<bar> \<le> 2 powi k"
  shows "\<exists>r. round64 x = Fin r \<and> \<bar>r\<bar> \<le> 2 powi k"
proof -
  define e where "e = max (expo x) (- 1022)"
  define u :: rat where "u = 2 powi (e - 52)"
  define m where "m = round_half_even (x / u)"
  have u: "0 < u" by (simp add: u_def pow2_pos)
  have "expo x \<le> k"
  proof (cases "x = 0")
    case True then show ?thesis using k0 by (simp add: expo_0)
  next
    case False
    have "\<bar>x\<bar> < 2 powi (k + 1)" using x pow2_less_iff[of k "k + 1"] by simp
    with False show ?thesis by (rule expo_le)
  qed
  then have ek: "e \<le> k" using k0 by (simp add: e_def)
  define j where "j = k - e + 52"
  have j: "0 \<le> j" using ek by (simp add: j_def)
  have pj: "(2::rat) powi k = of_int (2 ^ nat j) * u"
  proof -
    have "(2::rat) powi k = 2 powi j * 2 powi (e - 52)" by (simp add: j_def pow2_add[symmetric])
    then show ?thesis using j by (simp add: power_int_def u_def)
  qed
  have "\<bar>x\<bar> / u \<le> of_int (2 ^ nat j)"
    using x u unfolding pj by (simp only: pos_divide_le_eq)
  then have "\<bar>x / u\<bar> \<le> of_int (2 ^ nat j)" using u by (simp add: abs_divide)
  then have "\<bar>m\<bar> \<le> 2 ^ nat j" unfolding m_def by (rule round_half_even_abs_le)
  then have "(of_int \<bar>m\<bar> :: rat) \<le> of_int (2 ^ nat j)" by (simp only: of_int_le_iff)
  then have "of_int \<bar>m\<bar> * u \<le> of_int (2 ^ nat j) * u" using u by (simp only: mult_le_cancel_right_pos)
  then have "\<bar>of_int m * u\<bar> \<le> of_int (2 ^ nat j) * u" using u by (simp add: abs_mult)
  then have rb: "\<bar>of_int m * u\<bar> \<le> 2 powi k" by (simp only: pj)
  have "(2::rat) powi k < 2 powi 1024" by (rule pow2_less_iff[THEN iffD2]) (use k1 in simp)
  with rb have "\<bar>of_int m * u\<bar> < 2 powi 1024" by simp
  then have "\<not> 2 powi 1024 \<le> of_int m * u" and "\<not> of_int m * u \<le> - (2 powi 1024)" by auto
  then have "round64 x = Fin (of_int m * u)"
    by (simp add: round64_def Let_def e_def[symmetric] u_def[symmetric] m_def[symmetric])
  with rb show ?thesis by blast
qed

lemma round_half_even_near:
  assumes "\<bar>q - of_int m\<bar> < 1 / 2"
  shows "round_half_even q = m"
proof (cases "of_int m \<le> q")
  case True
  have lt: "q - of_int m < 1 / 2" using abs_ge_self[of "q - of_int m"] assms by linarith
  then have "q < of_int m + 1" by simp
  with True have f: "\<lfloor>q\<rfloor> = m" by (rule floor_unique)
  note lt
  then show ?thesis by (simp add: round_half_even_def f)
next
  case False
  have gt: "- (1 / 2) < q - of_int m" using abs_ge_minus_self[of "q - of_int m"] assms by linarith
  then have "of_int (m - 1) \<le> q" "q < of_int (m - 1) + 1" using False by auto
  then have f: "\<lfloor>q\<rfloor> = m - 1" by (rule floor_unique)
  have "1 / 2 < q - of_int (m - 1)" using gt by simp
  then show ?thesis by (simp add: round_half_even_def f)
qed

lemma expo_eq:
  assumes "2 powi e \<le> \<bar>x\<bar>" and "\<bar>x\<bar> < 2 powi (e + 1)"
  shows "expo x = e"
proof -
  have "0 < \<bar>x\<bar>" using pow2_pos[of e] assms(1) by (rule less_le_trans)
  then have "x \<noteq> 0" by simp
  then have "expo x \<le> e" using assms(2) by (rule expo_le)
  moreover have "e \<le> expo x" using assms(1) by (rule expo_ge)
  ultimately show ?thesis by simp
qed

lemma round64_near:
  assumes e: "- 1022 \<le> e" "e \<le> 1022"
    and lo: "2 powi e \<le> \<bar>x\<bar>" and hi: "\<bar>x\<bar> < 2 * 2 powi e"
    and near: "\<bar>x - of_int m * (2 powi e / 2 ^ 52)\<bar> < 2 powi e / 2 ^ 53"
  shows "round64 x = Fin (of_int m * (2 powi e / 2 ^ 52))"
proof -
  define u :: rat where "u = 2 powi (e - 52)"
  have u: "0 < u" by (simp add: u_def pow2_pos)
  have u52: "u = 2 powi e / 2 ^ 52" by (simp add: u_def pow2_diff)
  have ex: "expo x = e" using lo hi by (intro expo_eq) (simp_all add: pow2_Suc)
  have mx: "max (expo x) (- 1022) = e" using e by (simp add: ex)
  have hu: "2 powi e / 2 ^ 53 = u / 2" by (simp add: u52)
  have near': "\<bar>x - of_int m * u\<bar> < u / 2" using near by (simp only: hu u52[symmetric])
  have "(1024::int) = 1023 + 1" "(1023::int) = 1022 + 1" by simp_all
  then have p1024: "2 * (2::rat) powi 1022 + 2 * 2 powi 1022 = 2 powi 1024"
    using pow2_Suc[of 1023] pow2_Suc[of 1022] by (simp only:)
  have "x / u - of_int m = (x - of_int m * u) / u" using u by (simp add: field_simps)
  then have "\<bar>x / u - of_int m\<bar> = \<bar>x - of_int m * u\<bar> / u"
    using u by (simp only: abs_divide abs_of_pos)
  also have "\<dots> < (u / 2) / u" using near' u by (rule divide_strict_right_mono)
  also have "\<dots> = 1 / 2" using u by simp
  finally have r: "round_half_even (x / u) = m" by (rule round_half_even_near)
  have "\<bar>of_int m * u\<bar> \<le> \<bar>x\<bar> + \<bar>x - of_int m * u\<bar>" by linarith
  also have "\<dots> < 2 * 2 powi e + u / 2" using hi near' by linarith
  also have "\<dots> \<le> 2 * 2 powi e + 2 * 2 powi e"
  proof -
    have "u \<le> 2 powi e" unfolding u52 using pow2_pos[of e] by (simp add: divide_le_eq)
    then show ?thesis using pow2_pos[of e] by linarith
  qed
  also have "\<dots> \<le> 2 * 2 powi 1022 + 2 * 2 powi 1022" using pow2_mono[OF e(2)] by linarith
  also have "\<dots> = 2 powi 1024" by (simp only: p1024)
  finally have "\<bar>of_int m * u\<bar> < 2 powi 1024" .
  then have "\<not> 2 powi 1024 \<le> of_int m * u" "\<not> of_int m * u \<le> - (2 powi 1024)" by auto
  then have "round64 x = Fin (of_int m * u)"
    by (simp add: round64_def Let_def mx u_def[symmetric] r)
  then show ?thesis by (simp only: u52)
qed

lemma round_half_even_tie:
  assumes "q = of_int f + 1 / 2"
  shows "round_half_even q = (if even f then f else f + 1)"
proof -
  have "of_int f \<le> q" "q < of_int f + 1" using assms by simp_all
  then have f: "\<lfloor>q\<rfloor> = f" by (rule floor_unique)
  have "q - of_int f = 1 / 2" using assms by simp
  then show ?thesis by (simp add: round_half_even_def f)
qed

lemma round64_tie:
  assumes e: "- 1022 \<le> e" "e \<le> 1022"
    and lo: "2 powi e \<le> \<bar>x\<bar>" and hi: "\<bar>x\<bar> < 2 * 2 powi e"
    and tie: "x = (of_int f + 1 / 2) * (2 powi e / 2 ^ 52)"
  shows "round64 x = Fin (of_int (if even f then f else f + 1) * (2 powi e / 2 ^ 52))"
proof -
  define u :: rat where "u = 2 powi (e - 52)"
  define m where "m = (if even f then f else f + 1)"
  have u: "0 < u" by (simp add: u_def pow2_pos)
  have u52: "u = 2 powi e / 2 ^ 52" by (simp add: u_def pow2_diff)
  have ex: "expo x = e" using lo hi by (intro expo_eq) (simp_all add: pow2_Suc)
  have mx: "max (expo x) (- 1022) = e" using e by (simp add: ex)
  have xu: "x = (of_int f + 1 / 2) * u" using tie by (simp only: u52)
  then have "x / u = of_int f + 1 / 2" using u by simp
  then have r: "round_half_even (x / u) = m" unfolding m_def by (rule round_half_even_tie)
  have "(1024::int) = 1023 + 1" "(1023::int) = 1022 + 1" by simp_all
  then have p1024: "2 * (2::rat) powi 1022 + 2 * 2 powi 1022 = 2 powi 1024"
    using pow2_Suc[of 1023] pow2_Suc[of 1022] by (simp only:)
  have ule: "u \<le> 2 powi e" unfolding u52 using pow2_pos[of e] by (simp add: divide_le_eq)
  have "\<bar>of_int m - (of_int f + 1 / 2 :: rat)\<bar> \<le> 1 / 2" by (simp add: m_def)
  then have "\<bar>of_int m - (of_int f + 1 / 2 :: rat)\<bar> * u \<le> (1 / 2) * u"
    using u by (simp only: mult_le_cancel_right_pos)
  moreover have "of_int m * u - x = (of_int m - (of_int f + 1 / 2)) * u"
    by (simp only: xu left_diff_distrib)
  then have "\<bar>of_int m * u - x\<bar> = \<bar>of_int m - (of_int f + 1 / 2 :: rat)\<bar> * u"
    using u by (simp only: abs_mult abs_of_pos)
  ultimately have "\<bar>of_int m * u - x\<bar> \<le> u / 2" by simp
  then have "\<bar>of_int m * u\<bar> \<le> \<bar>x\<bar> + u / 2" by linarith
  also have "\<dots> < 2 * 2 powi e + 2 * 2 powi e" using hi ule pow2_pos[of e] by linarith
  also have "\<dots> \<le> 2 * 2 powi 1022 + 2 * 2 powi 1022" using pow2_mono[OF e(2)] by linarith
  also have "\<dots> = 2 powi 1024" by (simp only: p1024)
  finally have "\<bar>of_int m * u\<bar> < 2 powi 1024" .
  then have "\<not> 2 powi 1024 \<le> of_int m * u" "\<not> of_int m * u \<le> - (2 powi 1024)" by auto
  then have "round64 x = Fin (of_int m * u)"
    by (simp add: round64_def Let_def mx u_def[symmetric] r)
  then show ?thesis by (simp only: u52 m_def)
qed

section \<open>Overflow, and the blend of three equal values at one half\<close>

lemma round64_overflow:
  assumes "2 powi 1024 \<le> x"
  shows "round64 x = PInf"
proof -
  define e where "e = max (expo x) (- 1022)"
  define u :: rat where "u = 2 powi (e - 52)"
  have u: "0 < u" by (simp add: u_def pow2_pos)
  have x0: "0 < x" using pow2_pos[of 1024] assms by (rule less_le_trans)
  then have ax: "\<bar>x\<bar> = x" by simp
  have "1024 \<le> expo x" by (rule expo_ge) (simp only: ax assms)
  then have e: "1024 \<le> e" by (simp add: e_def)
  have ee: "expo x \<le> e" "e = expo x" using \<open>1024 \<le> expo x\<close> by (simp_all add: e_def)
  have "2 powi e \<le> \<bar>x\<bar>" unfolding ee(2) using x0 by (intro expo_bounds) simp
  then have le: "2 powi e \<le> x" by (simp only: ax)
  have p: "(2::rat) powi e = of_int (2 ^ nat 52) * 2 powi (e - 52)" by (rule pow2_shift) simp
  have "of_int (2 ^ nat 52) * u \<le> x" using le by (simp only: p u_def)
  then have "of_int (2 ^ nat 52) \<le> x / u" using u by (simp only: pos_le_divide_eq)
  then have "2 ^ nat 52 \<le> round_half_even (x / u)" by (rule round_half_even_ge)
  then have "(of_int (2 ^ nat 52) :: rat) \<le> of_int (round_half_even (x / u))"
    by (simp only: of_int_le_iff)
  then have "of_int (2 ^ nat 52) * u \<le> of_int (round_half_even (x / u)) * u"
    using u by (simp only: mult_le_cancel_right_pos)
  then have "2 powi e \<le> of_int (round_half_even (x / u)) * u" by (simp only: p u_def)
  moreover have "(2::rat) powi 1024 \<le> 2 powi e" using e by (rule pow2_mono)
  ultimately have "2 powi 1024 \<le> of_int (round_half_even (x / u)) * u" by (rule order_trans[rotated])
  then show ?thesis by (simp add: round64_def Let_def e_def[symmetric] u_def[symmetric])
qed

lemma round64_2_1023: "round64 (2 ^ 1023) = Fin (2 ^ 1023)"
proof -
  have "(2::rat) powi 1023 = of_int (2 ^ nat 52) * 2 powi (1023 - 52)" by (rule pow2_shift) simp
  then have r: "(2::rat) ^ 1023 = of_int (2 ^ 52) * 2 powi (1023 - 52)" by simp
  have p: "(2::rat) ^ 1023 = 2 powi 1023" by simp
  have le: "\<bar>(2::rat) ^ 1023\<bar> \<le> 2 powi (1023 + 1)"
    unfolding p abs_of_pos[OF pow2_pos] by (rule pow2_mono) simp
  have lt: "\<bar>(2::rat) ^ 1023\<bar> < 2 powi 1024"
    unfolding p abs_of_pos[OF pow2_pos] by (rule pow2_less_iff[THEN iffD2]) simp
  from r _ le lt show ?thesis by (rule round64_grid) simp
qed

lemma round_half_even_err: "\<bar>of_int (round_half_even z) - z\<bar> \<le> 1 / 2"
proof -
  have f: "of_int \<lfloor>z\<rfloor> \<le> z" "z < of_int \<lfloor>z\<rfloor> + 1" by linarith+
  show ?thesis
    using f by (auto simp: round_half_even_def Let_def abs_le_iff)
qed

lemma round_half_even_tie_even:
  assumes "even m" and "\<bar>z - of_int m\<bar> = 1 / 2"
  shows "round_half_even z = m"
proof (cases "of_int m \<le> z")
  case True
  then have z: "z = of_int m + 1 / 2" using assms(2) by simp
  show ?thesis using round_half_even_tie[OF z] assms(1) by simp
next
  case False
  then have z: "z = of_int (m - 1) + 1 / 2" using assms(2) by simp
  show ?thesis using round_half_even_tie[OF z] assms(1) by simp
qed

lemma round64_unit:
  assumes e: "- 1022 \<le> e" "e \<le> 1022" and u: "u = 2 powi (e - 52)"
    and lo: "2 ^ 52 \<le> \<bar>z\<bar>" and hi: "\<bar>z\<bar> < 2 ^ 53"
  shows "round64 (z * u) = Fin (of_int (round_half_even z) * u)"
proof -
  have up: "0 < u" by (simp add: u pow2_pos)
  have p52: "(2::rat) powi e = of_int (2 ^ nat 52) * u" unfolding u by (rule pow2_shift) simp
  have "(2::rat) powi (e + 1) = of_int (2 ^ nat 53) * 2 powi (e + 1 - 53)" by (rule pow2_shift) simp
  moreover have "e + 1 - 53 = e - 52" by simp
  ultimately have p53: "(2::rat) powi (e + 1) = of_int (2 ^ nat 53) * u" by (simp only: u)
  have ax: "\<bar>z * u\<bar> = \<bar>z\<bar> * u" using up by (simp add: abs_mult)
  have "2 powi e \<le> \<bar>z * u\<bar>" unfolding ax p52 using lo up by simp
  moreover have "\<bar>z * u\<bar> < 2 powi (e + 1)" unfolding ax p53 using hi up by simp
  ultimately have ex: "expo (z * u) = e" by (rule expo_eq)
  have mx: "max (expo (z * u)) (- 1022) = e" using e by (simp add: ex)
  have zu: "z * u / u = z" using up by simp
  have "\<bar>z\<bar> \<le> of_int (2 ^ nat 53)" using hi by simp
  then have "\<bar>round_half_even z\<bar> \<le> 2 ^ nat 53" by (rule round_half_even_abs_le)
  then have "(of_int \<bar>round_half_even z\<bar> :: rat) \<le> of_int (2 ^ nat 53)" by (simp only: of_int_le_iff)
  then have "of_int \<bar>round_half_even z\<bar> * u \<le> of_int (2 ^ nat 53) * u"
    using up by (simp only: mult_le_cancel_right_pos)
  then have "\<bar>of_int (round_half_even z) * u\<bar> \<le> 2 powi (e + 1)"
    using up by (simp add: p53 abs_mult)
  also have "\<dots> \<le> 2 powi 1023" by (rule pow2_mono) (use e in simp)
  also have "\<dots> < 2 powi 1024" by (rule pow2_less_iff[THEN iffD2]) simp
  finally have "\<bar>of_int (round_half_even z) * u\<bar> < 2 powi 1024" .
  then have "\<not> 2 powi 1024 \<le> of_int (round_half_even z) * u"
    "\<not> of_int (round_half_even z) * u \<le> - (2 powi 1024)" by auto
  then show ?thesis
    by (simp only: round64_def Let_def mx u[symmetric] zu if_False)
qed

lemma double_unit:
  assumes d: "round64 a = Fin a" and nz: "a \<noteq> 0" and e: "- 1022 \<le> expo a"
  obtains m where "a = of_int m * 2 powi (expo a - 52)" and "2 ^ 52 \<le> \<bar>m\<bar>" and "\<bar>m\<bar> < 2 ^ 53"
proof -
  define u :: rat where "u = 2 powi (expo a - 52)"
  define m where "m = round_half_even (a / u)"
  have up: "0 < u" by (simp add: u_def pow2_pos)
  have mx: "max (expo a) (- 1022) = expo a" using e by simp
  have a: "a = of_int m * u"
    using d by (simp add: round64_def Let_def mx u_def[symmetric] m_def[symmetric] split: if_splits)
  have p52: "(2::rat) powi expo a = of_int (2 ^ nat 52) * u" unfolding u_def by (rule pow2_shift) simp
  have "(2::rat) powi (expo a + 1) = of_int (2 ^ nat 53) * 2 powi (expo a + 1 - 53)"
    by (rule pow2_shift) simp
  moreover have "expo a + 1 - 53 = expo a - 52" by simp
  ultimately have p53: "(2::rat) powi (expo a + 1) = of_int (2 ^ nat 53) * u" by (simp only: u_def)
  have aa: "\<bar>a\<bar> = of_int \<bar>m\<bar> * u" using up by (simp add: a abs_mult)
  have "of_int (2 ^ nat 52) * u \<le> of_int \<bar>m\<bar> * u"
    using expo_bounds(1)[OF nz] by (simp only: p52 aa)
  then have "(of_int (2 ^ nat 52) :: rat) \<le> of_int \<bar>m\<bar>" using up by (simp only: mult_le_cancel_right_pos)
  then have lo: "2 ^ 52 \<le> \<bar>m\<bar>" by (simp only: of_int_le_iff) simp
  have "of_int \<bar>m\<bar> * u < of_int (2 ^ nat 53) * u"
    using expo_bounds(2)[OF nz] by (simp only: p53 aa)
  then have "(of_int \<bar>m\<bar> :: rat) < of_int (2 ^ nat 53)" using up by (simp only: mult_less_cancel_right_pos)
  then have hi: "\<bar>m\<bar> < 2 ^ 53" by (simp only: of_int_less_iff) simp
  from a lo hi show ?thesis unfolding u_def by (rule that)
qed

lemma pow2_half: "(2::rat) powi (e - 1 - 52) = 2 powi (e - 52) / 2"
proof -
  have "e - 52 = 1 + (e - 1 - 52)" by simp
  then have "(2::rat) powi (e - 52) = 2 powi (1 + (e - 1 - 52))" by (rule arg_cong)
  also have "\<dots> = 2 powi 1 * 2 powi (e - 1 - 52)" by (rule pow2_add)
  finally have "(2::rat) powi (e - 52) = 2 * 2 powi (e - 1 - 52)" by (simp only: power_int_1_right)
  then show ?thesis by (simp only: nonzero_mult_div_cancel_left[of 2, simplified])
qed

lemma pow2_quarter: "(2::rat) powi (e - 2 - 52) = 2 powi (e - 52) / 4"
proof -
  have "e - 52 = 2 + (e - 2 - 52)" by simp
  then have "(2::rat) powi (e - 52) = 2 powi (2 + (e - 2 - 52))" by (rule arg_cong)
  also have "\<dots> = 2 powi 2 * 2 powi (e - 2 - 52)" by (rule pow2_add)
  also have "(2::rat) powi 2 = 4" by simp
  finally have "(2::rat) powi (e - 52) = 4 * 2 powi (e - 2 - 52)" .
  then show ?thesis by (simp only: nonzero_mult_div_cancel_left[of 4, simplified])
qed

lemma scaled_double:
  assumes d: "round64 a = Fin a" and nz: "a \<noteq> 0" and lo: "- 1020 \<le> expo a" and hi: "expo a \<le> 1021"
  shows "round64 (a / 4) = Fin (a / 4)" and "round64 (a / 2) = Fin (a / 2)"
proof -
  from lo have e: "- 1022 \<le> expo a" by simp
  obtain m where a: "a = of_int m * 2 powi (expo a - 52)" and m: "2 ^ 52 \<le> \<bar>m\<bar>" "\<bar>m\<bar> < 2 ^ 53"
    using d nz e by (rule double_unit)
  have b: "(2::rat) ^ 52 \<le> \<bar>of_int m\<bar>" "\<bar>of_int m :: rat\<bar> < 2 ^ 53"
    using m by (simp_all flip: of_int_abs)
  have q: "of_int m * 2 powi (expo a - 2 - 52) = a / 4"
    by (subst (2) a, subst pow2_quarter) simp
  have "round64 (of_int m * 2 powi (expo a - 2 - 52)) =
      Fin (of_int (round_half_even (of_int m)) * 2 powi (expo a - 2 - 52))"
    by (rule round64_unit[OF _ _ refl b]) (use lo hi in simp_all)
  then show "round64 (a / 4) = Fin (a / 4)" by (simp only: round_half_even_of_int q)
  have h: "of_int m * 2 powi (expo a - 1 - 52) = a / 2"
    by (subst (2) a, subst pow2_half) simp
  have "round64 (of_int m * 2 powi (expo a - 1 - 52)) =
      Fin (of_int (round_half_even (of_int m)) * 2 powi (expo a - 1 - 52))"
    by (rule round64_unit[OF _ _ refl b]) (use lo hi in simp_all)
  then show "round64 (a / 2) = Fin (a / 2)" by (simp only: round_half_even_of_int h)
qed

lemma blend_rounds_back:
  assumes d: "round64 a = Fin a" and nz: "a \<noteq> 0" and lo: "- 1020 \<le> expo a" and hi: "expo a \<le> 1021"
  shows "\<exists>s. round64 (a / 4 + a / 2) = Fin s \<and> round64 (s + a / 4) = Fin a"
proof -
  define e where "e = expo a"
  define u :: rat where "u = 2 powi (e - 52)"
  from lo have e: "- 1022 \<le> expo a" by simp
  obtain m where a0: "a = of_int m * 2 powi (expo a - 52)" and m: "2 ^ 52 \<le> \<bar>m\<bar>" "\<bar>m\<bar> < 2 ^ 53"
    using d nz e by (rule double_unit)
  define M :: rat where "M = of_int m"
  have a: "a = M * u" using a0 by (simp add: M_def u_def e_def)
  have b: "(2::rat) ^ 52 \<le> \<bar>M\<bar>" "\<bar>M\<bar> \<le> 2 ^ 53 - 1"
  proof -
    show "(2::rat) ^ 52 \<le> \<bar>M\<bar>" using m(1) by (simp add: M_def flip: of_int_abs)
    from m(2) have "\<bar>m\<bar> \<le> 2 ^ 53 - 1" by simp
    then have "(of_int \<bar>m\<bar> :: rat) \<le> of_int (2 ^ 53 - 1)" by (simp only: of_int_le_iff)
    then show "\<bar>M\<bar> \<le> 2 ^ 53 - 1" by (simp add: M_def)
  qed
  have el: "- 1022 \<le> e" "e \<le> 1022" "- 1022 \<le> e - 1" "e - 1 \<le> 1022" using lo hi by (simp_all add: e_def)
  have rb: "round64 (Z * u) = Fin a"
    if lo: "2 ^ 52 \<le> \<bar>Z\<bar>" and hi: "\<bar>Z\<bar> < 2 ^ 53" and r: "round_half_even Z = m" for Z
  proof -
    have "round64 (Z * u) = Fin (of_int (round_half_even Z) * u)"
      using el(1,2) u_def lo hi by (rule round64_unit)
    then show ?thesis by (simp add: r a M_def)
  qed
  show ?thesis
  proof (cases "3 * \<bar>m\<bar> < 2 ^ 54")
    case True
    then have "(of_int (3 * \<bar>m\<bar>) :: rat) < of_int (2 ^ 54)" by (simp only: of_int_less_iff)
    then have t: "3 * \<bar>M\<bar> < 2 ^ 54" by (simp add: M_def)
    define J where "J = round_half_even (3 * M / 2)"
    have u2: "2 powi (e - 1 - 52) = u / 2" unfolding u_def by (rule pow2_half)
    have zb: "2 ^ 52 \<le> \<bar>3 * M / 2\<bar>" "\<bar>3 * M / 2\<bar> < 2 ^ 53" using b t by simp_all
    have q: "3 * M / 2 * (u / 2) = a / 4 + a / 2" by (simp add: a)
    have "round64 (3 * M / 2 * (u / 2)) = Fin (of_int (round_half_even (3 * M / 2)) * (u / 2))"
      using el(3,4) u2[symmetric] zb by (rule round64_unit)
    then have s: "round64 (a / 4 + a / 2) = Fin (of_int J * (u / 2))"
      by (simp only: q J_def[symmetric])
    have err: "\<bar>of_int J - 3 * M / 2\<bar> \<le> 1 / 2" unfolding J_def by (rule round_half_even_err)
    define Z :: rat where "Z = of_int J / 2 + M / 4"
    have zm: "\<bar>Z - M\<bar> \<le> 1 / 4" using err unfolding Z_def abs_le_iff by auto
    have exact: "Z = M" if "even m"
    proof -
      from that obtain k where k: "m = 2 * k" by (rule evenE)
      have "3 * M / 2 = of_int (3 * k)" by (simp add: M_def k)
      then have "J = 3 * k" by (simp only: J_def round_half_even_of_int)
      then show ?thesis by (simp add: Z_def M_def k)
    qed
    have zlo: "2 ^ 52 \<le> \<bar>Z\<bar>"
    proof (cases "even m")
      case True
      then show ?thesis using exact b(1) by simp
    next
      case False
      have "\<bar>m\<bar> \<noteq> 2 ^ 52"
      proof
        assume h: "\<bar>m\<bar> = 2 ^ 52"
        have "even (2 ^ 52 :: int)" by simp
        then have "even \<bar>m\<bar>" by (simp only: h)
        then have "even m" by simp
        with False show False by simp
      qed
      with m(1) have "2 ^ 52 + 1 \<le> \<bar>m\<bar>" by simp
      then have "(of_int (2 ^ 52 + 1) :: rat) \<le> of_int \<bar>m\<bar>" by (simp only: of_int_le_iff)
      then have "2 ^ 52 + 1 \<le> \<bar>M\<bar>" by (simp add: M_def)
      then show ?thesis using zm unfolding abs_le_iff by (simp add: abs_if split: if_splits)
    qed
    have zhi: "\<bar>Z\<bar> < 2 ^ 53" using zm b(2) by (simp add: abs_if split: if_splits)
    have "\<bar>Z - of_int m\<bar> < 1 / 2" using zm by (simp add: M_def)
    then have "round_half_even Z = m" by (rule round_half_even_near)
    with zlo zhi have r: "round64 (Z * u) = Fin a" by (rule rb)
    have "Z * u = of_int J * (u / 2) + a / 4" by (simp add: Z_def a algebra_simps)
    with r have "round64 (of_int J * (u / 2) + a / 4) = Fin a" by (simp only:)
    with s show ?thesis by (intro exI conjI)
  next
    case False
    then have "2 ^ 54 \<le> 3 * \<bar>m\<bar>" by simp
    then have "(of_int (2 ^ 54) :: rat) \<le> of_int (3 * \<bar>m\<bar>)" by (simp only: of_int_le_iff)
    then have t: "2 ^ 54 \<le> 3 * \<bar>M\<bar>" by (simp add: M_def)
    define J where "J = round_half_even (3 * M / 4)"
    have zb: "2 ^ 52 \<le> \<bar>3 * M / 4\<bar>" "\<bar>3 * M / 4\<bar> < 2 ^ 53" using b t by simp_all
    have q: "3 * M / 4 * u = a / 4 + a / 2" by (simp add: a)
    have "round64 (3 * M / 4 * u) = Fin (of_int (round_half_even (3 * M / 4)) * u)"
      using el(1,2) u_def zb by (rule round64_unit)
    then have s: "round64 (a / 4 + a / 2) = Fin (of_int J * u)"
      by (simp only: q J_def[symmetric])
    have err: "\<bar>of_int J - 3 * M / 4\<bar> \<le> 1 / 2" unfolding J_def by (rule round_half_even_err)
    define Z :: rat where "Z = of_int J + M / 4"
    have zm: "\<bar>Z - M\<bar> \<le> 1 / 2" using err unfolding Z_def abs_le_iff by auto
    have zlo: "2 ^ 52 \<le> \<bar>Z\<bar>" using zm t by (simp add: abs_if split: if_splits)
    have zhi: "\<bar>Z\<bar> < 2 ^ 53" using zm b(2) by (simp add: abs_if split: if_splits)
    have "round_half_even Z = m"
    proof (cases "\<bar>Z - M\<bar> < 1 / 2")
      case True
      then have "\<bar>Z - of_int m\<bar> < 1 / 2" by (simp add: M_def)
      then show ?thesis by (rule round_half_even_near)
    next
      case False
      with zm have tie: "\<bar>Z - of_int m\<bar> = 1 / 2" by (simp add: M_def)
      then have "\<bar>4 * of_int J - 3 * (of_int m :: rat)\<bar> = 2"
        by (simp add: Z_def M_def abs_if split: if_splits)
      then have "(of_int \<bar>4 * J - 3 * m\<bar> :: rat) = of_int 2" by simp
      then have "\<bar>4 * J - 3 * m\<bar> = 2" by (simp only: of_int_eq_iff)
      then have "even (4 * J - 3 * m)" by (metis even_abs_add_iff even_add even_numeral)
      then have "even m" by simp
      then show ?thesis using tie by (rule round_half_even_tie_even)
    qed
    with zlo zhi have r: "round64 (Z * u) = Fin a" by (rule rb)
    have "Z * u = of_int J * u + a / 4" by (simp add: Z_def a algebra_simps)
    with r have "round64 (of_int J * u + a / 4) = Fin a" by (simp only:)
    with s show ?thesis by (intro exI conjI)
  qed
qed

lemma round64_half: "round64 (1 / 2) = Fin (1 / 2)"
  using round64_grid[of "1 / 2" "2 ^ 52" "- 1"] by (simp add: power_int_minus)

lemma round64_quarter: "round64 (1 / 4) = Fin (1 / 4)"
  using round64_grid[of "1 / 4" "2 ^ 52" "- 2"] by (simp add: power_int_minus)

section \<open>Facts about the operations\<close>

lemma round64_0: "round64 0 = Fin 0"
  using round64_grid[of 0 0 0] by simp

lemma round64_1: "round64 1 = Fin 1"
  using round64_grid[of 1 "2 ^ 52" 0] by (simp add: power_int_minus)

lemma round64_2: "round64 2 = Fin 2"
  using round64_grid[of 2 "2 ^ 52" 1] by (simp add: power_int_minus)

lemma pow2_next: "k' = k + 1 \<Longrightarrow> (2::rat) powi k' = 2 * 2 powi k"
  by (simp only: pow2_Suc)

lemma finite_num_Fin: "finite_num v \<longleftrightarrow> (\<exists>x. v = Fin x)"
  by (cases v) (simp_all add: finite_num_def)

lemma coord_Fin: "coord v \<longleftrightarrow> (\<exists>x. v = Fin x \<and> round64 x = Fin x \<and> \<bar>x\<bar> \<le> 2 powi 1021)"
  by (cases v) (simp_all add: coord_def)

lemma jmul_zero_left: "finite_num v \<Longrightarrow> jmul (Fin 0) v = Fin 0"
  by (auto simp: finite_num_Fin round64_0)

lemma jmul_zero_right: "finite_num v \<Longrightarrow> jmul v (Fin 0) = Fin 0"
  by (auto simp: finite_num_Fin round64_0)

lemma jmul_NaN_right: "jmul v NaN = NaN"
  by (cases v) simp_all

lemma jadd_NaN_right: "jadd v NaN = NaN"
  by (cases v) simp_all

lemma jsub_NaN_right: "jsub v NaN = NaN"
  by (simp add: jsub_def jadd_NaN_right)

lemma jdiv_one_fin: "1 \<le> n \<Longrightarrow> finite_num (jdiv (Fin 1) (num n))"
proof -
  assume n: "1 \<le> n"
  have "\<bar>1 / (of_nat n :: rat)\<bar> \<le> 2 powi 0" using n by (simp add: divide_le_eq)
  with round64_bound[of 0 "1 / of_nat n"] obtain r where "round64 (1 / of_nat n) = Fin r"
    by auto
  then show ?thesis using n by (simp add: num_def finite_num_def)
qed

lemma param_0: "1 \<le> n \<Longrightarrow> param 0 n = Fin 0"
  using jmul_zero_left[OF jdiv_one_fin] by (simp add: param_def num_def)

lemma param_0_0: "param 0 0 = NaN"
  by (simp add: param_def num_def)

lemma bezier_NaN: "bezier self NaN gv = NaN"
  by (simp add: bezier_def jsub_NaN_right jmul_NaN_right jadd_NaN_right)

lemma getPoint_NaN: "getPoint self NaN = \<lparr>lat = NaN, lng = NaN\<rparr>"
  by (simp add: getPoint_def bezier_NaN)

lemma bezier_at_0:
  assumes "gv (from_pt self) = Fin f" and "round64 f = Fin f"
    and "finite_num (gv (control self))" and "finite_num (gv (to_pt self))"
  shows "bezier self (Fin 0) gv = Fin f"
proof -
  obtain c d where c: "gv (control self) = Fin c" and d: "gv (to_pt self) = Fin d"
    using assms(3,4) by (auto simp: finite_num_Fin)
  show ?thesis
    by (simp add: bezier_def jsub_def c d assms(1,2) round64_0 round64_1)
qed

lemma bezier_at_1:
  assumes "gv (to_pt self) = Fin d" and "round64 d = Fin d"
    and "finite_num (gv (from_pt self))" and "finite_num (gv (control self))"
  shows "bezier self (Fin 1) gv = Fin d"
proof -
  obtain f c where f: "gv (from_pt self) = Fin f" and c: "gv (control self) = Fin c"
    using assms(3,4) by (auto simp: finite_num_Fin)
  show ?thesis
    by (simp add: bezier_def jsub_def c f assms(1,2) round64_0 round64_1 round64_2)
qed

lemma getPoint_at_0:
  assumes "wf_latlng (from_pt self)" "finite_latlng (control self)" "finite_latlng (to_pt self)"
  shows "getPoint self (Fin 0) = from_pt self"
proof -
  obtain a b where a: "lat (from_pt self) = Fin a" "round64 a = Fin a"
    and b: "lng (from_pt self) = Fin b" "round64 b = Fin b"
    using assms(1) by (auto simp: wf_latlng_def coord_Fin)
  have "bezier self (Fin 0) lat = Fin a"
    using a assms(2,3) by (intro bezier_at_0) (auto simp: finite_latlng_def)
  moreover have "bezier self (Fin 0) lng = Fin b"
    using b assms(2,3) by (intro bezier_at_0) (auto simp: finite_latlng_def)
  ultimately show ?thesis by (simp add: getPoint_def a b)
qed

lemma getPoint_at_1:
  assumes "wf_latlng (to_pt self)" "finite_latlng (control self)" "finite_latlng (from_pt self)"
  shows "getPoint self (Fin 1) = to_pt self"
proof -
  obtain a b where a: "lat (to_pt self) = Fin a" "round64 a = Fin a"
    and b: "lng (to_pt self) = Fin b" "round64 b = Fin b"
    using assms(1) by (auto simp: wf_latlng_def coord_Fin)
  have "bezier self (Fin 1) lat = Fin a"
    using a assms(2,3) by (intro bezier_at_1) (auto simp: finite_latlng_def)
  moreover have "bezier self (Fin 1) lng = Fin b"
    using b assms(2,3) by (intro bezier_at_1) (auto simp: finite_latlng_def)
  ultimately show ?thesis by (simp add: getPoint_def a b)
qed

lemma getPoint_cong:
  "from_pt a = from_pt b \<Longrightarrow> control a = control b \<Longrightarrow> to_pt a = to_pt b \<Longrightarrow> getPoint a = getPoint b"
  by (rule ext) (simp add: getPoint_def bezier_def)

section \<open>The sampling loop in closed form\<close>

lemma sample_loop_closed:
  "sample_loop self n t =
     self\<lparr>points := map_option (\<lambda>acc. acc @ map (\<lambda>i. getPoint self (param i n)) [t..<Suc n]) (points self),
          middlePoint := (if t \<le> n div 2 then Some (getPoint self (param (n div 2) n)) else middlePoint self)\<rparr>"
proof (induction self n t rule: sample_loop.induct)
  case (1 self n t)
  show ?case
  proof (cases "t \<le> n")
    case False
    then have "\<not> t \<le> n div 2" by simp
    with False show ?thesis by (subst sample_loop.simps) (simp add: option.map_ident)
  next
    case True
    define pt where "pt = getPoint self (param t n)"
    define self1 where "self1 = (if t = n div 2 then self\<lparr>middlePoint := Some pt\<rparr> else self)"
    have g: "getPoint (push pt self1) = getPoint self"
      by (rule getPoint_cong) (simp_all add: push_def self1_def)
    have u: "[t..<Suc n] = t # [Suc t..<Suc n]" using True by (simp add: upt_conv_Cons)
    have "sample_loop self n t = sample_loop (push pt self1) n (t + 1)"
      using True by (subst sample_loop.simps) (simp add: pt_def self1_def Let_def)
    also have "\<dots> = (push pt self1)\<lparr>points := map_option (\<lambda>acc. acc @ map (\<lambda>i. getPoint self (param i n)) [t + 1..<Suc n]) (points (push pt self1)),
          middlePoint := (if t + 1 \<le> n div 2 then Some (getPoint self (param (n div 2) n)) else middlePoint (push pt self1))\<rparr>"
      using "1.IH"[OF True pt_def self1_def] by (simp only: g)
    also have "\<dots> = self\<lparr>points := map_option (\<lambda>acc. acc @ map (\<lambda>i. getPoint self (param i n)) [t..<Suc n]) (points self),
          middlePoint := (if t \<le> n div 2 then Some (getPoint self (param (n div 2) n)) else middlePoint self)\<rparr>"
      using True by (cases "points self") (auto simp: push_def self1_def pt_def u simp del: upt_Suc)
    finally show ?thesis .
  qed
qed

lemma getPolylinePoints_fresh:
  assumes "points self = None"
  shows "getPolylinePoints self =
    (map (\<lambda>i. getPoint self (param i (effective_steps (steps (opts self)))))
         [0..<Suc (effective_steps (steps (opts self)))],
     self\<lparr>points := Some (map (\<lambda>i. getPoint self (param i (effective_steps (steps (opts self)))))
                         [0..<Suc (effective_steps (steps (opts self)))]),
          middlePoint := Some (getPoint self (param (effective_steps (steps (opts self)) div 2)
                                       (effective_steps (steps (opts self)))))\<rparr>)"
proof -
  have g: "getPoint (self\<lparr>points := Some []\<rparr>) = getPoint self"
    by (rule getPoint_cong) simp_all
  show ?thesis
    by (simp add: getPolylinePoints_def assms Let_def sample_loop_closed g del: upt_Suc)
qed

lemma getPolylinePoints_cached_eq: "points self = Some ps \<Longrightarrow> getPolylinePoints self = (ps, self)"
  by (simp add: getPolylinePoints_def)

section \<open>Single roundings of the examples\<close>

text \<open>
  Each lemma below is one literal or one arithmetic operation on concrete binary64
  values, proved from the exponent and the integer significand of its result.
\<close>

lemma literal_0_4: "round64 (4 / 10) = Fin (3602879701896397 / 9007199254740992)"
  using round64_near[of "- 2" "4 / 10" "7205759403792794"] by simp

lemma literal_10: "round64 10 = Fin 10"
  using round64_near[of "3" "10" "5629499534213120"] by simp

lemma step_1: "jadd (Fin 0) (Fin 10) = Fin 10"
  using round64_near[of "3" "0 + 10" "5629499534213120"] by simp

lemma step_2: "jdiv (Fin 10) (Fin 2) = Fin 5"
  using round64_near[of "2" "10 / 2" "5629499534213120"] by simp

lemma step_3: "jsub (Fin 5) (Fin 10) = Fin (- 5)"
  using round64_near[of "2" "5 - 10" "- 5629499534213120"] by (simp add: jsub_def)

lemma step_4: "jmul (Fin (- 5)) (Fin (3602879701896397 / 9007199254740992)) = Fin (- 2)"
  using round64_near[of "1" "(- 5) * (3602879701896397 / 9007199254740992)" "- 4503599627370496"] by simp

lemma step_5: "jadd (Fin (- 2)) (Fin 5) = Fin 3"
  using round64_near[of "1" "(- 2) + 5" "6755399441055744"] by simp

lemma step_6: "jsub (Fin 10) (Fin 5) = Fin 5"
  using round64_near[of "2" "10 - 5" "5629499534213120"] by (simp add: jsub_def)

lemma step_7: "jmul (Fin 5) (Fin (3602879701896397 / 9007199254740992)) = Fin 2"
  using round64_near[of "1" "5 * (3602879701896397 / 9007199254740992)" "4503599627370496"] by simp

lemma step_8: "jadd (Fin 2) (Fin 5) = Fin 7"
  using round64_near[of "2" "2 + 5" "7881299347898368"] by simp

lemma step_9: "jdiv (Fin 1) (Fin 98) = Fin (5882252574524729 / 576460752303423488)"
  using round64_near[of "- 7" "1 / 98" "5882252574524729"] by simp

lemma step_10: "jmul (Fin 98) (Fin (5882252574524729 / 576460752303423488)) = Fin (9007199254740991 / 9007199254740992)"
  using round64_near[of "- 1" "98 * (5882252574524729 / 576460752303423488)" "9007199254740991"] by simp

lemma step_11: "jmul (Fin 49) (Fin (5882252574524729 / 576460752303423488)) = Fin (9007199254740991 / 18014398509481984)"
  using round64_near[of "- 2" "49 * (5882252574524729 / 576460752303423488)" "9007199254740991"] by simp

lemma step_12: "jdiv (Fin 1) (Fin 20) = Fin (3602879701896397 / 72057594037927936)"
  using round64_near[of "- 5" "1 / 20" "7205759403792794"] by simp

lemma step_13: "jmul (Fin 20) (Fin (3602879701896397 / 72057594037927936)) = Fin 1"
  using round64_near[of "0" "20 * (3602879701896397 / 72057594037927936)" "4503599627370496"] by simp

lemma step_14: "jmul (Fin 10) (Fin (3602879701896397 / 72057594037927936)) = Fin (1 / 2)"
  using round64_near[of "- 1" "10 * (3602879701896397 / 72057594037927936)" "4503599627370496"] by simp

lemma step_15: "jmul (Fin 1) (Fin (3602879701896397 / 72057594037927936)) = Fin (3602879701896397 / 72057594037927936)"
  using round64_near[of "- 5" "1 * (3602879701896397 / 72057594037927936)" "7205759403792794"] by simp

lemma step_16: "jsub (Fin 1) (Fin (9007199254740991 / 9007199254740992)) = Fin (1 / 9007199254740992)"
  using round64_near[of "- 53" "1 - (9007199254740991 / 9007199254740992)" "4503599627370496"] by (simp add: jsub_def)

lemma step_17: "jmul (Fin (1 / 9007199254740992)) (Fin (1 / 9007199254740992)) = Fin (1 / 81129638414606681695789005144064)"
  using round64_near[of "- 106" "(1 / 9007199254740992) * (1 / 9007199254740992)" "4503599627370496"] by simp

lemma step_18: "jmul (Fin (1 / 81129638414606681695789005144064)) (Fin 0) = Fin 0"
  by (simp add: round64_0)

lemma step_19: "jmul (Fin 2) (Fin (9007199254740991 / 9007199254740992)) = Fin (9007199254740991 / 4503599627370496)"
  using round64_near[of "0" "2 * (9007199254740991 / 9007199254740992)" "9007199254740991"] by simp

lemma step_20: "jmul (Fin (9007199254740991 / 4503599627370496)) (Fin (1 / 9007199254740992)) = Fin (9007199254740991 / 40564819207303340847894502572032)"
  using round64_near[of "- 53" "(9007199254740991 / 4503599627370496) * (1 / 9007199254740992)" "9007199254740991"] by simp

lemma step_21: "jmul (Fin (9007199254740991 / 40564819207303340847894502572032)) (Fin 3) = Fin (6755399441055743 / 10141204801825835211973625643008)"
  using round64_near[of "- 51" "(9007199254740991 / 40564819207303340847894502572032) * 3" "6755399441055743"] by simp

lemma step_22: "jmul (Fin (9007199254740991 / 9007199254740992)) (Fin (9007199254740991 / 9007199254740992)) = Fin (4503599627370495 / 4503599627370496)"
  using round64_near[of "- 1" "(9007199254740991 / 9007199254740992) * (9007199254740991 / 9007199254740992)" "9007199254740990"] by simp

lemma step_23: "jmul (Fin (4503599627370495 / 4503599627370496)) (Fin 10) = Fin (5629499534213119 / 562949953421312)"
  using round64_near[of "3" "(4503599627370495 / 4503599627370496) * 10" "5629499534213119"] by simp

lemma step_24: "jadd (Fin 0) (Fin (6755399441055743 / 10141204801825835211973625643008)) = Fin (6755399441055743 / 10141204801825835211973625643008)"
  using round64_near[of "- 51" "0 + (6755399441055743 / 10141204801825835211973625643008)" "6755399441055743"] by simp

lemma step_25: "jadd (Fin (6755399441055743 / 10141204801825835211973625643008)) (Fin (5629499534213119 / 562949953421312)) = Fin (5629499534213119 / 562949953421312)"
  using round64_near[of "3" "(6755399441055743 / 10141204801825835211973625643008) + (5629499534213119 / 562949953421312)" "5629499534213119"] by simp

lemma step_26: "jmul (Fin (9007199254740991 / 40564819207303340847894502572032)) (Fin 7) = Fin (7881299347898367 / 5070602400912917605986812821504)"
  using round64_near[of "- 50" "(9007199254740991 / 40564819207303340847894502572032) * 7" "7881299347898367"] by simp

lemma step_27: "jadd (Fin 0) (Fin (7881299347898367 / 5070602400912917605986812821504)) = Fin (7881299347898367 / 5070602400912917605986812821504)"
  using round64_near[of "- 50" "0 + (7881299347898367 / 5070602400912917605986812821504)" "7881299347898367"] by simp

lemma step_28: "jadd (Fin (7881299347898367 / 5070602400912917605986812821504)) (Fin (5629499534213119 / 562949953421312)) = Fin 10"
  using round64_near[of "3" "(7881299347898367 / 5070602400912917605986812821504) + (5629499534213119 / 562949953421312)" "5629499534213120"] by simp

lemma step_29: "jsub (Fin 1) (Fin (9007199254740991 / 18014398509481984)) = Fin (1 / 2)"
  using round64_tie[of "- 1" "1 - (9007199254740991 / 18014398509481984)" "4503599627370496"] by (simp add: jsub_def)

lemma step_30: "jmul (Fin (1 / 2)) (Fin (1 / 2)) = Fin (1 / 4)"
  using round64_near[of "- 2" "(1 / 2) * (1 / 2)" "4503599627370496"] by simp

lemma step_31: "jmul (Fin (1 / 4)) (Fin 0) = Fin 0"
  by (simp add: round64_0)

lemma step_32: "jmul (Fin 2) (Fin (9007199254740991 / 18014398509481984)) = Fin (9007199254740991 / 9007199254740992)"
  using round64_near[of "- 1" "2 * (9007199254740991 / 18014398509481984)" "9007199254740991"] by simp

lemma step_33: "jmul (Fin (9007199254740991 / 9007199254740992)) (Fin (1 / 2)) = Fin (9007199254740991 / 18014398509481984)"
  using round64_near[of "- 2" "(9007199254740991 / 9007199254740992) * (1 / 2)" "9007199254740991"] by simp

lemma step_34: "jmul (Fin (9007199254740991 / 18014398509481984)) (Fin 3) = Fin (6755399441055743 / 4503599627370496)"
  using round64_near[of "0" "(9007199254740991 / 18014398509481984) * 3" "6755399441055743"] by simp

lemma step_35: "jmul (Fin (9007199254740991 / 18014398509481984)) (Fin (9007199254740991 / 18014398509481984)) = Fin (4503599627370495 / 18014398509481984)"
  using round64_near[of "- 3" "(9007199254740991 / 18014398509481984) * (9007199254740991 / 18014398509481984)" "9007199254740990"] by simp

lemma step_36: "jmul (Fin (4503599627370495 / 18014398509481984)) (Fin 10) = Fin (5629499534213119 / 2251799813685248)"
  using round64_near[of "1" "(4503599627370495 / 18014398509481984) * 10" "5629499534213119"] by simp

lemma step_37: "jadd (Fin 0) (Fin (6755399441055743 / 4503599627370496)) = Fin (6755399441055743 / 4503599627370496)"
  using round64_near[of "0" "0 + (6755399441055743 / 4503599627370496)" "6755399441055743"] by simp

lemma step_38: "jadd (Fin (6755399441055743 / 4503599627370496)) (Fin (5629499534213119 / 2251799813685248)) = Fin (4503599627370495 / 1125899906842624)"
  using round64_tie[of "1" "(6755399441055743 / 4503599627370496) + (5629499534213119 / 2251799813685248)" "9007199254740990"] by simp

lemma step_39: "jmul (Fin (9007199254740991 / 18014398509481984)) (Fin 7) = Fin (7881299347898367 / 2251799813685248)"
  using round64_near[of "1" "(9007199254740991 / 18014398509481984) * 7" "7881299347898367"] by simp

lemma step_40: "jadd (Fin 0) (Fin (7881299347898367 / 2251799813685248)) = Fin (7881299347898367 / 2251799813685248)"
  using round64_near[of "1" "0 + (7881299347898367 / 2251799813685248)" "7881299347898367"] by simp

lemma step_41: "jadd (Fin (7881299347898367 / 2251799813685248)) (Fin (5629499534213119 / 2251799813685248)) = Fin (6755399441055743 / 1125899906842624)"
  using round64_near[of "2" "(7881299347898367 / 2251799813685248) + (5629499534213119 / 2251799813685248)" "6755399441055743"] by simp

lemma step_42: "jsub (Fin 1) (Fin (1 / 2)) = Fin (1 / 2)"
  using round64_near[of "- 1" "1 - (1 / 2)" "4503599627370496"] by (simp add: jsub_def)

lemma step_43: "jmul (Fin 2) (Fin (1 / 2)) = Fin 1"
  using round64_near[of "0" "2 * (1 / 2)" "4503599627370496"] by simp

lemma step_44: "jmul (Fin 1) (Fin (1 / 2)) = Fin (1 / 2)"
  using round64_near[of "- 1" "1 * (1 / 2)" "4503599627370496"] by simp

lemma step_45: "jmul (Fin (1 / 2)) (Fin 3) = Fin (3 / 2)"
  using round64_near[of "0" "(1 / 2) * 3" "6755399441055744"] by simp

lemma step_46: "jmul (Fin (1 / 4)) (Fin 10) = Fin (5 / 2)"
  using round64_near[of "1" "(1 / 4) * 10" "5629499534213120"] by simp

lemma step_47: "jadd (Fin 0) (Fin (3 / 2)) = Fin (3 / 2)"
  using round64_near[of "0" "0 + (3 / 2)" "6755399441055744"] by simp

lemma step_48: "jadd (Fin (3 / 2)) (Fin (5 / 2)) = Fin 4"
  using round64_near[of "2" "(3 / 2) + (5 / 2)" "4503599627370496"] by simp

lemma step_49: "jmul (Fin (1 / 2)) (Fin 7) = Fin (7 / 2)"
  using round64_near[of "1" "(1 / 2) * 7" "7881299347898368"] by simp

lemma step_50: "jadd (Fin 0) (Fin (7 / 2)) = Fin (7 / 2)"
  using round64_near[of "1" "0 + (7 / 2)" "7881299347898368"] by simp

lemma step_51: "jadd (Fin (7 / 2)) (Fin (5 / 2)) = Fin 6"
  using round64_near[of "2" "(7 / 2) + (5 / 2)" "6755399441055744"] by simp

lemma step_52: "jadd (Fin 1) (Fin 1) = Fin 2"
  using round64_near[of "1" "1 + 1" "4503599627370496"] by simp

lemma step_53: "jdiv (Fin 2) (Fin 2) = Fin 1"
  using round64_near[of "0" "2 / 2" "4503599627370496"] by simp

lemma step_54: "jsub (Fin 1) (Fin 1) = Fin 0"
  by (simp add: jsub_def round64_0)

lemma step_55: "jmul (Fin 0) (Fin (3602879701896397 / 9007199254740992)) = Fin 0"
  by (simp add: round64_0)

lemma step_56: "jadd (Fin 0) (Fin 1) = Fin 1"
  using round64_near[of "0" "0 + 1" "4503599627370496"] by simp

lemma step_57: "jsub (Fin 1) (Fin (3602879701896397 / 72057594037927936)) = Fin (4278419646001971 / 4503599627370496)"
  using round64_near[of "- 1" "1 - (3602879701896397 / 72057594037927936)" "8556839292003942"] by (simp add: jsub_def)

lemma step_58: "jmul (Fin (4278419646001971 / 4503599627370496)) (Fin (4278419646001971 / 4503599627370496)) = Fin (8128997327403745 / 9007199254740992)"
  using round64_near[of "- 1" "(4278419646001971 / 4503599627370496) * (4278419646001971 / 4503599627370496)" "8128997327403745"] by simp

lemma step_59: "jmul (Fin (8128997327403745 / 9007199254740992)) (Fin 1) = Fin (8128997327403745 / 9007199254740992)"
  using round64_near[of "- 1" "(8128997327403745 / 9007199254740992) * 1" "8128997327403745"] by simp

lemma step_60: "jmul (Fin 2) (Fin (3602879701896397 / 72057594037927936)) = Fin (3602879701896397 / 36028797018963968)"
  using round64_near[of "- 4" "2 * (3602879701896397 / 72057594037927936)" "7205759403792794"] by simp

lemma step_61: "jmul (Fin (3602879701896397 / 36028797018963968)) (Fin (4278419646001971 / 4503599627370496)) = Fin (3422735716801577 / 36028797018963968)"
  using round64_near[of "- 4" "(3602879701896397 / 36028797018963968) * (4278419646001971 / 4503599627370496)" "6845471433603154"] by simp

lemma step_62: "jmul (Fin (3422735716801577 / 36028797018963968)) (Fin 1) = Fin (3422735716801577 / 36028797018963968)"
  using round64_near[of "- 4" "(3422735716801577 / 36028797018963968) * 1" "6845471433603154"] by simp

lemma step_63: "jmul (Fin (3602879701896397 / 72057594037927936)) (Fin (3602879701896397 / 72057594037927936)) = Fin (1441151880758559 / 576460752303423488)"
  using round64_near[of "- 9" "(3602879701896397 / 72057594037927936) * (3602879701896397 / 72057594037927936)" "5764607523034236"] by simp

lemma step_64: "jmul (Fin (1441151880758559 / 576460752303423488)) (Fin 1) = Fin (1441151880758559 / 576460752303423488)"
  using round64_near[of "- 9" "(1441151880758559 / 576460752303423488) * 1" "5764607523034236"] by simp

lemma step_65: "jadd (Fin (8128997327403745 / 9007199254740992)) (Fin (3422735716801577 / 36028797018963968)) = Fin (8984681256604139 / 9007199254740992)"
  using round64_near[of "- 1" "(8128997327403745 / 9007199254740992) + (3422735716801577 / 36028797018963968)" "8984681256604139"] by simp

lemma step_66: "jadd (Fin (8984681256604139 / 9007199254740992)) (Fin (1441151880758559 / 576460752303423488)) = Fin (9007199254740991 / 9007199254740992)"
  using round64_near[of "- 1" "(8984681256604139 / 9007199254740992) + (1441151880758559 / 576460752303423488)" "9007199254740991"] by simp

section \<open>Facts about well-formed coordinates\<close>

lemma wf_finite: "wf_latlng p \<Longrightarrow> finite_latlng p"
  by (auto simp: wf_latlng_def finite_latlng_def coord_Fin finite_num_Fin)

lemma coord_0: "coord (Fin 0)"
  by (simp add: coord_def round64_0)

lemma coord_1: "coord (Fin 1)"
  by (simp add: coord_def round64_1)

lemma coord_10: "coord (Fin 10)"
  by (simp add: coord_def literal_10)

lemma coord_midpoint:
  assumes "coord a" and "coord b"
  shows "coord (jdiv (jadd a b) (Fin 2))"
proof -
  obtain x y where a: "a = Fin x" "\<bar>x\<bar> \<le> 2 powi 1021" and b: "b = Fin y" "\<bar>y\<bar> \<le> 2 powi 1021"
    using assms by (auto simp: coord_Fin)
  have p: "(2::rat) powi 1022 = 2 * 2 powi 1021" by (rule pow2_next) simp
  have "\<bar>x + y\<bar> \<le> 2 powi 1022" using a(2) b(2) unfolding p by linarith
  with round64_bound[of 1022 "x + y"] obtain s where s: "round64 (x + y) = Fin s" "\<bar>s\<bar> \<le> 2 powi 1022"
    by auto
  have "\<bar>s / 2\<bar> \<le> 2 powi 1021" using s(2) unfolding p by simp
  with round64_bound[of 1021 "s / 2"] obtain m where m: "round64 (s / 2) = Fin m" "\<bar>m\<bar> \<le> 2 powi 1021"
    by auto
  have "round64 m = Fin m" using m(1) by (rule round64_idem)
  then have "coord (Fin m)" using m(2) by (simp only: coord_def jsnum.case simp_thms)
  then show ?thesis by (simp add: a b s m)
qed

lemma coord_sub_finite:
  assumes "coord a" and "coord b"
  shows "finite_num (jsub a b)"
proof -
  obtain x y where a: "a = Fin x" "\<bar>x\<bar> \<le> 2 powi 1021" and b: "b = Fin y" "\<bar>y\<bar> \<le> 2 powi 1021"
    using assms by (auto simp: coord_Fin)
  have p: "(2::rat) powi 1022 = 2 * 2 powi 1021" by (rule pow2_next) simp
  have "\<bar>x + - y\<bar> \<le> 2 powi 1022" using a(2) b(2) unfolding p by linarith
  with round64_bound[of 1022 "x + - y"] obtain s where "round64 (x + - y) = Fin s"
    by auto
  then show ?thesis by (simp add: a b jsub_def finite_num_def)
qed

lemma jadd_zero_coord: "coord a \<Longrightarrow> jadd (Fin 0) a = a"
  by (auto simp: coord_Fin)

lemma coord_half_twice:
  assumes "coord a"
  shows "jdiv (jadd a a) (Fin 2) = a"
proof -
  obtain x where a: "a = Fin x" "round64 x = Fin x" "\<bar>x\<bar> \<le> 2 powi 1021"
    using assms by (auto simp: coord_Fin)
  have "(2::rat) powi 1021 < 2 powi 1023" by (rule pow2_less_iff[THEN iffD2]) simp
  with a(3) have "\<bar>x\<bar> < 2 powi 1023" by simp
  with a(2) have "round64 (x + x) = Fin (x + x)" by (rule round64_twice)
  then show ?thesis by (simp add: a)
qed

lemma coord_sub_self: "coord a \<Longrightarrow> jsub a a = Fin 0"
  by (auto simp: coord_Fin jsub_def round64_0)

lemma calculateControlPoint_spec:
  "calculateControlPoint from to opts' = spec_resolveControlPoint from to (curveFactor opts')"
  by (simp add: calculateControlPoint_def spec_resolveControlPoint_def spec_midpoint_def Let_def)

lemma zero_factor:
  assumes "wf_latlng from" and "wf_latlng to"
  shows "spec_resolveControlPoint from to (Fin 0) = spec_midpoint from to"
proof -
  have f: "coord (lat from)" "coord (lng from)" and t: "coord (lat to)" "coord (lng to)"
    using assms by (simp_all add: wf_latlng_def)
  have m: "coord (lat (spec_midpoint from to))" "coord (lng (spec_midpoint from to))"
    using f t by (simp_all add: spec_midpoint_def coord_midpoint)
  have "jmul (jsub (lng (spec_midpoint from to)) (lng to)) (Fin 0) = Fin 0"
    using m(2) t(2) by (intro jmul_zero_right coord_sub_finite)
  moreover have "jmul (jsub (lat to) (lat (spec_midpoint from to))) (Fin 0) = Fin 0"
    using m(1) t(1) by (intro jmul_zero_right coord_sub_finite)
  ultimately show ?thesis
    using m by (simp add: spec_resolveControlPoint_def Let_def jadd_zero_coord)
qed

lemma control_of_equal_endpoints:
  assumes "wf_latlng p" and "finite_num (curveFactor opts')"
  shows "calculateControlPoint p p opts' = p"
proof -
  have c: "coord (lat p)" "coord (lng p)" using assms(1) by (simp_all add: wf_latlng_def)
  have z: "jmul (Fin 0) (curveFactor opts') = Fin 0" using assms(2) by (rule jmul_zero_left)
  show ?thesis
    using c by (simp add: calculateControlPoint_def Let_def coord_half_twice coord_sub_self z jadd_zero_coord)
qed

section \<open>The zero factor and the middle of a degenerate curve\<close>

lemma jsub_finite_D: "finite_num (jsub a b) \<Longrightarrow> finite_num a \<and> finite_num b"
  by (cases a; cases b) (simp_all add: jsub_def finite_num_def)

lemma jdiv_two_double: "jdiv s (Fin 2) = Fin y \<Longrightarrow> round64 y = Fin y"
  by (cases s) (auto intro: round64_idem)

lemma jmul_zero_not_finite: "\<not> finite_num d \<Longrightarrow> jmul d (Fin 0) = NaN"
  by (cases d) (simp_all add: finite_num_def)

lemma jadd_zero_midpoint: "finite_num (jdiv s (Fin 2)) \<Longrightarrow> jadd (Fin 0) (jdiv s (Fin 2)) = jdiv s (Fin 2)"
proof -
  assume "finite_num (jdiv s (Fin 2))"
  then obtain y where y: "jdiv s (Fin 2) = Fin y" by (auto simp: finite_num_Fin)
  then have "round64 y = Fin y" by (rule jdiv_two_double)
  then show ?thesis by (simp add: y)
qed

lemma zero_factor_iff:
  assumes "lat (spec_midpoint from to) \<noteq> NaN" and "lng (spec_midpoint from to) \<noteq> NaN"
  shows "spec_resolveControlPoint from to (Fin 0) = spec_midpoint from to \<longleftrightarrow>
    finite_num (jsub (lng (spec_midpoint from to)) (lng to)) \<and>
    finite_num (jsub (lat to) (lat (spec_midpoint from to)))"
proof -
  let ?m = "spec_midpoint from to"
  have mlat: "lat ?m = jdiv (jadd (lat from) (lat to)) (Fin 2)"
    and mlng: "lng ?m = jdiv (jadd (lng from) (lng to)) (Fin 2)"
    by (simp_all add: spec_midpoint_def)
  have a: "jadd (jmul (jsub (lng ?m) (lng to)) (Fin 0)) (lat ?m) = lat ?m \<longleftrightarrow>
      finite_num (jsub (lng ?m) (lng to))" if "finite_num (jsub (lat to) (lat ?m))"
  proof (cases "finite_num (jsub (lng ?m) (lng to))")
    case True
    have "finite_num (lat ?m)" using that jsub_finite_D by blast
    then have "jadd (Fin 0) (lat ?m) = lat ?m" unfolding mlat by (rule jadd_zero_midpoint)
    then show ?thesis using True by (simp add: jmul_zero_right)
  next
    case False
    then show ?thesis using assms(1) by (simp add: jmul_zero_not_finite)
  qed
  have b: "jadd (jmul (jsub (lat to) (lat ?m)) (Fin 0)) (lng ?m) = lng ?m \<longleftrightarrow>
      finite_num (jsub (lat to) (lat ?m))" if "finite_num (jsub (lng ?m) (lng to))"
  proof (cases "finite_num (jsub (lat to) (lat ?m))")
    case True
    have "finite_num (lng ?m)" using that jsub_finite_D by blast
    then have "jadd (Fin 0) (lng ?m) = lng ?m" unfolding mlng by (rule jadd_zero_midpoint)
    then show ?thesis using True by (simp add: jmul_zero_right)
  next
    case False
    then show ?thesis using assms(2) by (simp add: jmul_zero_not_finite)
  qed
  have c: "jadd (jmul (jsub (lng ?m) (lng to)) (Fin 0)) (lat ?m) \<noteq> lat ?m"
    if "\<not> finite_num (jsub (lng ?m) (lng to))"
    using that assms(1) by (simp add: jmul_zero_not_finite)
  have d: "jadd (jmul (jsub (lat to) (lat ?m)) (Fin 0)) (lng ?m) \<noteq> lng ?m"
    if "\<not> finite_num (jsub (lat to) (lat ?m))"
    using that assms(2) by (simp add: jmul_zero_not_finite)
  have eq: "spec_resolveControlPoint from to (Fin 0) = ?m \<longleftrightarrow>
      jadd (jmul (jsub (lng ?m) (lng to)) (Fin 0)) (lat ?m) = lat ?m \<and>
      jadd (jmul (jsub (lat to) (lat ?m)) (Fin 0)) (lng ?m) = lng ?m"
    by (cases ?m) (auto simp: spec_resolveControlPoint_def Let_def)
  show ?thesis unfolding eq using a b c d by blast
qed

lemma overflow_control:
  assumes "2 powi 1024 \<le> 2 * b"
  shows "calculateControlPoint \<lparr>lat = Fin b, lng = Fin 0\<rparr> \<lparr>lat = Fin b, lng = Fin 0\<rparr>
           (opts'\<lparr>curveFactor := Fin 0\<rparr>) = \<lparr>lat = PInf, lng = NaN\<rparr>"
    and "spec_midpoint \<lparr>lat = Fin b, lng = Fin 0\<rparr> \<lparr>lat = Fin b, lng = Fin 0\<rparr>
           = \<lparr>lat = PInf, lng = Fin 0\<rparr>"
  by (simp_all add: calculateControlPoint_def spec_midpoint_def jsub_def round64_0 Let_def
      round64_overflow[OF assms])

lemma half_weights:
  "jsub (Fin 1) (Fin (1 / 2)) = Fin (1 / 2)"
  "jmul (Fin (1 / 2)) (Fin (1 / 2)) = Fin (1 / 4)"
  "jmul (Fin 2) (Fin (1 / 2)) = Fin 1"
  "jmul (Fin 1) (Fin (1 / 2)) = Fin (1 / 2)"
  by (simp_all add: jsub_def round64_half round64_quarter round64_1)

lemma blend_half:
  assumes "normal_coord (Fin a)"
  shows "jadd (jadd (jmul (Fin (1 / 4)) (Fin a)) (jmul (Fin (1 / 2)) (Fin a)))
              (jmul (Fin (1 / 4)) (Fin a)) = Fin a"
proof (cases "a = 0")
  case True
  then show ?thesis by (simp add: round64_0)
next
  case False
  from assms False have d: "round64 a = Fin a" and lo: "2 powi (- 1020) \<le> \<bar>a\<bar>"
    and hi: "\<bar>a\<bar> \<le> 2 powi 1021"
    by (simp_all add: normal_coord_def)
  have l: "- 1020 \<le> expo a" using lo by (rule expo_ge)
  have "(2::rat) powi 1021 < 2 powi (1021 + 1)" by (rule pow2_less_iff[THEN iffD2]) simp
  with hi have "\<bar>a\<bar> < 2 powi (1021 + 1)" by (rule le_less_trans)
  with False have h: "expo a \<le> 1021" by (rule expo_le)
  have q: "round64 (1 / 4 * a) = Fin (a / 4)" "round64 (1 / 2 * a) = Fin (a / 2)"
    using scaled_double[OF d False l h] by simp_all
  obtain s where s: "round64 (a / 4 + a / 2) = Fin s" "round64 (s + a / 4) = Fin a"
    using blend_rounds_back[OF d False l h] by blast
  show ?thesis by (simp only: jmul.simps(1) jadd.simps(1) q s)
qed

lemma bezier_half_equal:
  assumes "normal_coord (gv (from_pt self))"
    and "gv (control self) = gv (from_pt self)" and "gv (to_pt self) = gv (from_pt self)"
  shows "bezier self (Fin (1 / 2)) gv = gv (from_pt self)"
proof -
  from assms(1) obtain a where a: "gv (from_pt self) = Fin a"
    by (cases "gv (from_pt self)") (simp_all add: normal_coord_def)
  from assms(1) have n: "normal_coord (Fin a)" by (simp only: a)
  show ?thesis
    by (simp only: bezier_def assms(2,3) a half_weights blend_half[OF n])
qed

lemma getPoint_half_equal:
  assumes "normal_latlng p" and "from_pt self = p" and "control self = p" and "to_pt self = p"
  shows "getPoint self (Fin (1 / 2)) = p"
proof -
  have "bezier self (Fin (1 / 2)) lat = lat (from_pt self)"
    using assms by (intro bezier_half_equal) (simp_all add: normal_latlng_def)
  moreover have "bezier self (Fin (1 / 2)) lng = lng (from_pt self)"
    using assms by (intro bezier_half_equal) (simp_all add: normal_latlng_def)
  ultimately show ?thesis by (simp add: getPoint_def assms(2))
qed

lemma coord_1_normal: "normal_coord (Fin 1)"
proof -
  have "(2::rat) powi (- 1020) \<le> 2 powi 0" by (rule pow2_mono) simp
  moreover have "(2::rat) powi 0 \<le> 2 powi 1021" by (rule pow2_mono) simp
  ultimately show ?thesis by (simp add: normal_coord_def round64_1)
qed

section \<open>The constructed object and the worked examples\<close>

lemma new_curve_fields:
  "from_pt (new_curve f t opts') = f" "to_pt (new_curve f t opts') = t"
  "opts (new_curve f t opts') = opts'" "points (new_curve f t opts') = None"
  "controlPoint opts' = None \<Longrightarrow> control (new_curve f t opts') = calculateControlPoint f t opts'"
  "controlPoint opts' = Some p \<Longrightarrow> control (new_curve f t opts') = p"
  by (simp_all add: new_curve_def)

lemma defaults_fields:
  "controlPoint QuadraticBezierLine_defaults = None"
  "steps QuadraticBezierLine_defaults = 20"
  "color QuadraticBezierLine_defaults = ''#ff0000''"
  "weight QuadraticBezierLine_defaults = Fin 5"
  "opacity QuadraticBezierLine_defaults = round64 (6 / 10)"
  "curveFactor QuadraticBezierLine_defaults = round64 (4 / 10)"
  by (simp_all add: QuadraticBezierLine_defaults_def)

lemma effective_steps_examples:
  "effective_steps 0 = 0" "effective_steps 20 = 20" "effective_steps 98 = 98"
  by (simp_all add: effective_steps_def)

lemma QuadraticBezierLine_eq:
  "QuadraticBezierLine f t u =
     (let self = new_curve f t QuadraticBezierLine_defaults;
          pts = map (\<lambda>i. getPoint self (param i 20)) [0..<21]
      in self\<lparr>points := Some pts, middlePoint := Some (getPoint self (param 10 20)),
              overlay := Some \<lparr>latlngs = pts, line_color = ''#ff0000'', line_weight = Fin 5,
                                line_opacity = round64 (6 / 10)\<rparr>\<rparr>)"
proof -
  have n: "Suc 20 = 21" by simp
  show ?thesis
    unfolding QuadraticBezierLine_def Let_def
    by (subst getPolylinePoints_fresh)
       (simp_all add: new_curve_fields defaults_fields effective_steps_examples n del: upt_Suc)
qed

lemma calculateControlPoint_steps:
  "calculateControlPoint f t (opts'\<lparr>steps := n\<rparr>) = calculateControlPoint f t opts'"
  by (simp add: calculateControlPoint_def)

lemma control_0_10:
  "calculateControlPoint \<lparr>lat = Fin 0, lng = Fin 0\<rparr> \<lparr>lat = Fin 10, lng = Fin 10\<rparr>
     QuadraticBezierLine_defaults = \<lparr>lat = Fin 3, lng = Fin 7\<rparr>"
  by (simp only: calculateControlPoint_def Let_def defaults_fields latlng.select_convs
        literal_0_4 step_1 step_2 step_3 step_4 step_5 step_6 step_7 step_8)

lemma midpoint_0_10:
  "spec_midpoint \<lparr>lat = Fin 0, lng = Fin 0\<rparr> \<lparr>lat = Fin 10, lng = Fin 10\<rparr>
     = \<lparr>lat = Fin 5, lng = Fin 5\<rparr>"
  by (simp only: spec_midpoint_def latlng.select_convs step_1 step_2)

lemma control_1_1:
  "calculateControlPoint \<lparr>lat = Fin 1, lng = Fin 1\<rparr> \<lparr>lat = Fin 1, lng = Fin 1\<rparr>
     QuadraticBezierLine_defaults = \<lparr>lat = Fin 1, lng = Fin 1\<rparr>"
  by (simp only: calculateControlPoint_def Let_def defaults_fields latlng.select_convs
        literal_0_4 step_52 step_53 step_54 step_55 step_56)

lemma default_factor_finite: "finite_num (curveFactor QuadraticBezierLine_defaults)"
  by (simp only: defaults_fields literal_0_4 finite_num_def jsnum.case)

lemma getPoint_eval:
  assumes "from_pt self = \<lparr>lat = a1, lng = a2\<rparr>" and "control self = \<lparr>lat = c1, lng = c2\<rparr>"
    and "to_pt self = \<lparr>lat = b1, lng = b2\<rparr>"
  shows "getPoint self t =
    \<lparr>lat = jadd (jadd (jmul (jmul (jsub (Fin 1) t) (jsub (Fin 1) t)) a1)
                    (jmul (jmul (jmul (Fin 2) t) (jsub (Fin 1) t)) c1))
               (jmul (jmul t t) b1),
     lng = jadd (jadd (jmul (jmul (jsub (Fin 1) t) (jsub (Fin 1) t)) a2)
                    (jmul (jmul (jmul (Fin 2) t) (jsub (Fin 1) t)) c2))
               (jmul (jmul t t) b2)\<rparr>"
  by (simp add: getPoint_def bezier_def assms)

lemma example_fields:
  "from_pt (new_curve \<lparr>lat = Fin 0, lng = Fin 0\<rparr> \<lparr>lat = Fin 10, lng = Fin 10\<rparr>
      (QuadraticBezierLine_defaults\<lparr>steps := n\<rparr>)) = \<lparr>lat = Fin 0, lng = Fin 0\<rparr>"
  "control (new_curve \<lparr>lat = Fin 0, lng = Fin 0\<rparr> \<lparr>lat = Fin 10, lng = Fin 10\<rparr>
      (QuadraticBezierLine_defaults\<lparr>steps := n\<rparr>)) = \<lparr>lat = Fin 3, lng = Fin 7\<rparr>"
  "to_pt (new_curve \<lparr>lat = Fin 0, lng = Fin 0\<rparr> \<lparr>lat = Fin 10, lng = Fin 10\<rparr>
      (QuadraticBezierLine_defaults\<lparr>steps := n\<rparr>)) = \<lparr>lat = Fin 10, lng = Fin 10\<rparr>"
  "points (new_curve \<lparr>lat = Fin 0, lng = Fin 0\<rparr> \<lparr>lat = Fin 10, lng = Fin 10\<rparr>
      (QuadraticBezierLine_defaults\<lparr>steps := n\<rparr>)) = None"
  "steps (opts (new_curve \<lparr>lat = Fin 0, lng = Fin 0\<rparr> \<lparr>lat = Fin 10, lng = Fin 10\<rparr>
      (QuadraticBezierLine_defaults\<lparr>steps := n\<rparr>))) = n"
  by (simp_all add: new_curve_fields defaults_fields calculateControlPoint_steps control_0_10)

lemma param_98_98: "param 98 98 = Fin (9007199254740991 / 9007199254740992)"
  by (simp only: param_def num_def of_nat_numeral step_9 step_10)

lemma param_49_98: "param 49 98 = Fin (9007199254740991 / 18014398509481984)"
  by (simp only: param_def num_def of_nat_numeral step_9 step_11)

lemma param_20_20: "param 20 20 = Fin 1"
  by (simp only: param_def num_def of_nat_numeral step_12 step_13)

lemma param_10_20: "param 10 20 = Fin (1 / 2)"
  by (simp only: param_def num_def of_nat_numeral step_12 step_14)

lemma param_1_20: "param 1 20 = Fin (3602879701896397 / 72057594037927936)"
  by (simp only: param_def num_def of_nat_numeral of_nat_1 step_12 step_15)

lemma last_sample_98:
  "getPoint (new_curve \<lparr>lat = Fin 0, lng = Fin 0\<rparr> \<lparr>lat = Fin 10, lng = Fin 10\<rparr>
      (QuadraticBezierLine_defaults\<lparr>steps := 98\<rparr>)) (param 98 98)
   = \<lparr>lat = Fin (5629499534213119 / 562949953421312), lng = Fin 10\<rparr>"
  by (simp only: getPoint_eval[OF example_fields(1,2,3)] param_98_98 step_16 step_17 step_18 step_19 step_20 step_21 step_22 step_23 step_24 step_25 step_26 step_27 step_28)

lemma middle_sample_98:
  "getPoint (new_curve \<lparr>lat = Fin 0, lng = Fin 0\<rparr> \<lparr>lat = Fin 10, lng = Fin 10\<rparr>
      (QuadraticBezierLine_defaults\<lparr>steps := 98\<rparr>)) (param 49 98)
   = \<lparr>lat = Fin (4503599627370495 / 1125899906842624), lng = Fin (6755399441055743 / 1125899906842624)\<rparr>"
  by (simp only: getPoint_eval[OF example_fields(1,2,3)] param_49_98 step_29 step_30 step_31 step_32 step_33 step_34 step_35 step_36 step_37 step_38 step_39 step_40 step_41)

lemma half_sample_98:
  "getPoint (new_curve \<lparr>lat = Fin 0, lng = Fin 0\<rparr> \<lparr>lat = Fin 10, lng = Fin 10\<rparr>
      (QuadraticBezierLine_defaults\<lparr>steps := 98\<rparr>)) (Fin (1 / 2))
   = \<lparr>lat = Fin 4, lng = Fin 6\<rparr>"
  by (simp only: getPoint_eval[OF example_fields(1,2,3)] step_42 step_30 step_31 step_43 step_44 step_45 step_46 step_47 step_48 step_49 step_50 step_51)

lemma ones_fields:
  "from_pt (new_curve \<lparr>lat = Fin 1, lng = Fin 1\<rparr> \<lparr>lat = Fin 1, lng = Fin 1\<rparr>
      QuadraticBezierLine_defaults) = \<lparr>lat = Fin 1, lng = Fin 1\<rparr>"
  "control (new_curve \<lparr>lat = Fin 1, lng = Fin 1\<rparr> \<lparr>lat = Fin 1, lng = Fin 1\<rparr>
      QuadraticBezierLine_defaults) = \<lparr>lat = Fin 1, lng = Fin 1\<rparr>"
  "to_pt (new_curve \<lparr>lat = Fin 1, lng = Fin 1\<rparr> \<lparr>lat = Fin 1, lng = Fin 1\<rparr>
      QuadraticBezierLine_defaults) = \<lparr>lat = Fin 1, lng = Fin 1\<rparr>"
  by (simp_all add: new_curve_fields defaults_fields control_1_1)

lemma second_sample_ones:
  "getPoint (new_curve \<lparr>lat = Fin 1, lng = Fin 1\<rparr> \<lparr>lat = Fin 1, lng = Fin 1\<rparr>
      QuadraticBezierLine_defaults) (param 1 20)
   = \<lparr>lat = Fin (9007199254740991 / 9007199254740992), lng = Fin (9007199254740991 / 9007199254740992)\<rparr>"
  by (simp only: getPoint_eval[OF ones_fields] param_1_20 step_57 step_58 step_59 step_60 step_61 step_62 step_63 step_64 step_65 step_66)

section \<open>Facts about the merge and the sampled sequence\<close>

lemma call_hasOwnProperty_inherited:
  assumes "map_of d ''hasOwnProperty'' = None"
  shows "call_hasOwnProperty d attr = Inr (attr \<in> fst ` set d)"
  by (simp only: call_hasOwnProperty_def assms option.case) (simp add: map_of_eq_None_iff)

lemma call_hasOwnProperty_shadowed:
  assumes "map_of d ''hasOwnProperty'' \<noteq> None"
  shows "call_hasOwnProperty d attr = Inl TypeError"
proof -
  from assms obtain v where "map_of d ''hasOwnProperty'' = Some v" by blast
  then show ?thesis by (simp only: call_hasOwnProperty_def option.case)
qed

lemma merge_loop_throws:
  "map_of d ''hasOwnProperty'' \<noteq> None \<Longrightarrow> rest \<noteq> [] \<Longrightarrow> merge_loop u d acc rest = Inl TypeError"
  by (cases rest) (auto simp: call_hasOwnProperty_shadowed)

lemma merge_loop_returns:
  assumes "map_of d ''hasOwnProperty'' = None" and "fst ` set rest \<subseteq> fst ` set d"
  shows "merge_loop u d acc rest =
    Inr (foldl (\<lambda>o' (attr, _). set_prop o' attr (js_or (get_prop u attr) (get_prop d attr))) acc rest)"
  using assms(2)
proof (induction rest arbitrary: acc)
  case Nil
  show ?case by simp
next
  case (Cons a rest)
  obtain k v where a: "a = (k, v)" by (cases a)
  from Cons.prems have k: "k \<in> fst ` set d" and r: "fst ` set rest \<subseteq> fst ` set d"
    by (simp_all add: a)
  show ?case
    by (simp add: a call_hasOwnProperty_inherited[OF assms(1)] k Cons.IH[OF r])
qed

lemma set_prop_lookup:
  "map_of (set_prop acc a v) k = (if k = a \<and> a \<noteq> ''__proto__'' then Some v else map_of acc k)"
  by (simp add: set_prop_def update_conv')

lemma set_prop_keys:
  "fst ` set (set_prop acc a v) = (if a = ''__proto__'' then fst ` set acc else insert a (fst ` set acc))"
  by (simp add: set_prop_def dom_update)

lemma set_prop_distinct: "distinct (map fst acc) \<Longrightarrow> distinct (map fst (set_prop acc a v))"
  by (simp add: set_prop_def distinct_update)

lemma merge_fold_lookup:
  "map_of (foldl (\<lambda>o' (attr, _). set_prop o' attr (g attr)) acc d) k =
     (if k \<in> fst ` set d \<and> k \<noteq> ''__proto__'' then Some (g k) else map_of acc k)"
proof (induction d arbitrary: acc)
  case Nil
  show ?case by simp
next
  case (Cons a d)
  obtain a' v where a: "a = (a', v)" by (cases a)
  show ?case by (simp add: a Cons.IH set_prop_lookup)
qed

lemma merge_fold_keys:
  "fst ` set (foldl (\<lambda>o' (attr, _). set_prop o' attr (g attr)) acc d)
     = fst ` set acc \<union> (fst ` set d - {''__proto__''})"
proof (induction d arbitrary: acc)
  case Nil
  show ?case by simp
next
  case (Cons a d)
  obtain k v where a: "a = (k, v)" by (cases a)
  show ?case by (simp add: a Cons.IH set_prop_keys) auto
qed

lemma merge_fold_distinct:
  "distinct (map fst acc) \<Longrightarrow>
   distinct (map fst (foldl (\<lambda>o' (attr, _). set_prop o' attr (g attr)) acc d))"
  by (induction d arbitrary: acc) (auto simp: set_prop_distinct)

lemma defaults_object_no_shadow:
  "map_of (options_object opts') ''hasOwnProperty'' = None"
  by (simp add: options_object_def)

lemma sampled_nth:
  assumes "points self = None" and "i \<le> effective_steps (steps (opts self))"
  shows "fst (getPolylinePoints self) ! i = getPoint self (param i (effective_steps (steps (opts self))))"
proof -
  have "i < Suc (effective_steps (steps (opts self)))" using assms(2) by simp
  then show ?thesis
    by (simp add: getPolylinePoints_fresh[OF assms(1)] del: upt_Suc)
qed

lemma sampled_middle:
  assumes "points self = None"
  shows "middlePoint (snd (getPolylinePoints self)) =
    Some (getPoint self (param (effective_steps (steps (opts self)) div 2) (effective_steps (steps (opts self)))))"
  by (simp add: getPolylinePoints_fresh[OF assms] del: upt_Suc)

section \<open>The properties of the specification\<close>

text \<open>
  C1. The claim: the constructor applies every recognised option the caller supplies over
  the defaults, so the curve and the values handed to the overlay use the supplied
  values. The code does not: the merge is commented out, and a caller who asks for 2 steps
  and the colour \<open>#0000ff\<close> gets the object built from no options at all, with the
  default options, the default colour and 21 points.
\<close>

theorem constructor_ignores_opts:
  "QuadraticBezierLine f t (Some [(''steps'', JNum (Fin 2)), (''color'', JStr ''#0000ff'')])
     = QuadraticBezierLine f t None \<and>
   opts (QuadraticBezierLine f t (Some [(''steps'', JNum (Fin 2)), (''color'', JStr ''#0000ff'')]))
     = QuadraticBezierLine_defaults \<and>
   map_option line_color
     (overlay (QuadraticBezierLine f t (Some [(''steps'', JNum (Fin 2)), (''color'', JStr ''#0000ff'')])))
     = Some ''#ff0000'' \<and>
   map_option (\<lambda>g. length (latlngs g))
     (overlay (QuadraticBezierLine f t (Some [(''steps'', JNum (Fin 2)), (''color'', JStr ''#0000ff'')])))
     = Some 21"
  by (simp add: QuadraticBezierLine_eq Let_def new_curve_fields del: upt_Suc)

text \<open>
  C2. The claim: a control point supplied in the configuration becomes the curve's
  control point. The code drops it with the rest of the caller's options: from (0, 0) to
  (10, 10) with the control point (1, 1) supplied, the control point of the constructed
  curve is the derived one, (3, 7). The \<open>||\<close> of the constructor does take a control
  point that \<open>this.opts\<close> holds; \<open>this.opts\<close> is always the defaults object, which
  holds none.
\<close>

theorem constructor_ignores_controlPoint:
  "control (QuadraticBezierLine \<lparr>lat = Fin 0, lng = Fin 0\<rparr> \<lparr>lat = Fin 10, lng = Fin 10\<rparr>
      (Some [(''controlPoint'', JLatLng \<lparr>lat = Fin 1, lng = Fin 1\<rparr>)]))
     = \<lparr>lat = Fin 3, lng = Fin 7\<rparr> \<and>
   control (new_curve f t (opts'\<lparr>controlPoint := Some p\<rparr>)) = p"
  by (simp add: QuadraticBezierLine_eq Let_def new_curve_fields defaults_fields control_0_10 del: upt_Suc)

text \<open>
  C3, as stated: with \<open>steps = 0\<close> the sequence is \<open>[from]\<close>. It is not: from (0, 0) to
  (10, 10) the single point is not \<open>from\<close>.
\<close>

theorem zero_steps_not_from:
  "fst (getPolylinePoints (new_curve \<lparr>lat = Fin 0, lng = Fin 0\<rparr> \<lparr>lat = Fin 10, lng = Fin 10\<rparr>
          (QuadraticBezierLine_defaults\<lparr>steps := 0\<rparr>)))
     \<noteq> [from_pt (new_curve \<lparr>lat = Fin 0, lng = Fin 0\<rparr> \<lparr>lat = Fin 10, lng = Fin 10\<rparr>
          (QuadraticBezierLine_defaults\<lparr>steps := 0\<rparr>))]"
  by (simp add: getPolylinePoints_fresh example_fields effective_steps_examples param_0_0 getPoint_NaN)

text \<open>
  C3, amended: with \<open>steps = 0\<close> the loop is not special-cased. It runs once, with the
  parameter \<open>0 * (1 / 0) = 0 * Infinity = NaN\<close>; no exception is raised, the sequence has
  the single point (NaN, NaN) whatever the endpoints are, and the midpoint is that point.
\<close>

theorem zero_steps_single_NaN_point:
  "jdiv (Fin 1) (num 0) = PInf \<and> param 0 0 = NaN \<and>
   getPolylinePoints (self\<lparr>opts := (opts self)\<lparr>steps := 0\<rparr>, points := None\<rparr>)
     = ([\<lparr>lat = NaN, lng = NaN\<rparr>],
        self\<lparr>opts := (opts self)\<lparr>steps := 0\<rparr>, points := Some [\<lparr>lat = NaN, lng = NaN\<rparr>],
             middlePoint := Some \<lparr>lat = NaN, lng = NaN\<rparr>\<rparr>)"
  by (simp add: getPolylinePoints_fresh effective_steps_examples param_0_0 getPoint_NaN num_def)

text \<open>
  C4, as stated: whenever the effective step count is at least 1, the last point is
  exactly \<open>to\<close>. With 98 steps the last parameter \<open>98 * (1 / 98)\<close> evaluates to
  \<open>1 - 2\<^sup>-\<^sup>5\<^sup>3\<close> (printed 0.9999999999999999), and from (0, 0) to (10, 10), with the
  derived control point (3, 7), the last of the 99 points has latitude 9.999999999999998.
\<close>

theorem last_point_98_steps:
  "fst (getPolylinePoints (new_curve \<lparr>lat = Fin 0, lng = Fin 0\<rparr> \<lparr>lat = Fin 10, lng = Fin 10\<rparr>
          (QuadraticBezierLine_defaults\<lparr>steps := 98\<rparr>))) ! 98
     = \<lparr>lat = Fin (5629499534213119 / 562949953421312), lng = Fin 10\<rparr> \<and>
   fst (getPolylinePoints (new_curve \<lparr>lat = Fin 0, lng = Fin 0\<rparr> \<lparr>lat = Fin 10, lng = Fin 10\<rparr>
          (QuadraticBezierLine_defaults\<lparr>steps := 98\<rparr>))) ! 98
     \<noteq> to_pt (new_curve \<lparr>lat = Fin 0, lng = Fin 0\<rparr> \<lparr>lat = Fin 10, lng = Fin 10\<rparr>
          (QuadraticBezierLine_defaults\<lparr>steps := 98\<rparr>)) \<and>
   length (fst (getPolylinePoints (new_curve \<lparr>lat = Fin 0, lng = Fin 0\<rparr> \<lparr>lat = Fin 10, lng = Fin 10\<rparr>
          (QuadraticBezierLine_defaults\<lparr>steps := 98\<rparr>)))) = 99"
proof -
  have "fst (getPolylinePoints (new_curve \<lparr>lat = Fin 0, lng = Fin 0\<rparr> \<lparr>lat = Fin 10, lng = Fin 10\<rparr>
          (QuadraticBezierLine_defaults\<lparr>steps := 98\<rparr>))) ! 98
     = \<lparr>lat = Fin (5629499534213119 / 562949953421312), lng = Fin 10\<rparr>"
    by (subst sampled_nth) (simp_all add: example_fields effective_steps_examples last_sample_98)
  moreover have "length (fst (getPolylinePoints (new_curve \<lparr>lat = Fin 0, lng = Fin 0\<rparr> \<lparr>lat = Fin 10, lng = Fin 10\<rparr>
          (QuadraticBezierLine_defaults\<lparr>steps := 98\<rparr>)))) = 99"
    by (simp add: getPolylinePoints_fresh example_fields effective_steps_examples del: upt_Suc)
  ultimately show ?thesis by (simp add: example_fields)
qed

text \<open>
  C4, amended: for well-formed endpoints, a finite control point and at least one step,
  the first point is exactly \<open>from\<close>; the last point is the sample at the parameter
  \<open>n * (1 / n)\<close>, \<open>n\<close> the effective step count, and is exactly \<open>to\<close> whenever that
  product evaluates to 1 (as it does for the default 20 steps).
\<close>

theorem endpoints_sampled:
  assumes "points self = None" and "1 \<le> steps (opts self)"
    and "wf_latlng (from_pt self)" and "wf_latlng (to_pt self)" and "finite_latlng (control self)"
  shows "fst (getPolylinePoints self) ! 0 = from_pt self \<and>
    fst (getPolylinePoints self) ! effective_steps (steps (opts self))
      = getPoint self (param (effective_steps (steps (opts self))) (effective_steps (steps (opts self)))) \<and>
    (param (effective_steps (steps (opts self))) (effective_steps (steps (opts self))) = Fin 1 \<longrightarrow>
       fst (getPolylinePoints self) ! effective_steps (steps (opts self)) = to_pt self)"
proof -
  have n: "1 \<le> effective_steps (steps (opts self))" using assms(2) by (simp add: effective_steps_def)
  have "fst (getPolylinePoints self) ! 0 = getPoint self (Fin 0)"
    using sampled_nth[OF assms(1), of 0] by (simp add: param_0[OF n])
  then have first: "fst (getPolylinePoints self) ! 0 = from_pt self"
    using assms(3,4,5) by (simp add: getPoint_at_0 wf_finite)
  have last: "fst (getPolylinePoints self) ! effective_steps (steps (opts self))
      = getPoint self (param (effective_steps (steps (opts self))) (effective_steps (steps (opts self))))"
    using sampled_nth[OF assms(1), of "effective_steps (steps (opts self))"] by simp
  have "getPoint self (Fin 1) = to_pt self"
    using assms(3,4,5) by (simp add: getPoint_at_1 wf_finite)
  with first last show ?thesis by simp
qed

theorem endpoints_sampled_witness:
  "fst (getPolylinePoints (new_curve \<lparr>lat = Fin 0, lng = Fin 0\<rparr> \<lparr>lat = Fin 10, lng = Fin 10\<rparr>
          QuadraticBezierLine_defaults)) ! 0 = \<lparr>lat = Fin 0, lng = Fin 0\<rparr> \<and>
   fst (getPolylinePoints (new_curve \<lparr>lat = Fin 0, lng = Fin 0\<rparr> \<lparr>lat = Fin 10, lng = Fin 10\<rparr>
          QuadraticBezierLine_defaults)) ! 20 = \<lparr>lat = Fin 10, lng = Fin 10\<rparr>"
proof -
  let ?s = "new_curve \<lparr>lat = Fin 0, lng = Fin 0\<rparr> \<lparr>lat = Fin 10, lng = Fin 10\<rparr>
          QuadraticBezierLine_defaults"
  have "points ?s = None" "1 \<le> steps (opts ?s)" "wf_latlng (from_pt ?s)" "wf_latlng (to_pt ?s)"
    "finite_latlng (control ?s)"
    by (simp_all add: new_curve_fields defaults_fields control_0_10 wf_latlng_def
          finite_latlng_def finite_num_def coord_0 coord_10)
  from endpoints_sampled[OF this] show ?thesis
    by (auto simp: new_curve_fields defaults_fields effective_steps_examples param_20_20)
qed

text \<open>
  C5. For every step count the sequence computed for a curve has
  \<open>effectiveSteps + 1\<close> points, where \<open>effectiveSteps\<close> is the step count when it is
  even and one more when it is odd: \<open>steps + 1\<close> points for an even count, \<open>steps + 2\<close>
  for an odd one.
\<close>

theorem points_length:
  "length (fst (getPolylinePoints (self\<lparr>points := None\<rparr>)))
     = effective_steps (steps (opts self)) + 1 \<and>
   effective_steps (steps (opts self))
     = (if even (steps (opts self)) then steps (opts self) else steps (opts self) + 1) \<and>
   length (fst (getPolylinePoints (self\<lparr>points := None\<rparr>)))
     = (if even (steps (opts self)) then steps (opts self) + 1 else steps (opts self) + 2)"
  by (subst (1 2) getPolylinePoints_fresh)
     (simp_all add: effective_steps_def even_iff_mod_2_eq_zero del: upt_Suc)

text \<open>
  C6, as stated: whenever the effective step count is at least 1, the recorded midpoint
  equals the curve evaluated at 0.5. With 98 steps the middle parameter \<open>49 * (1 / 98)\<close>
  evaluates to \<open>0.5 - 2\<^sup>-\<^sup>5\<^sup>4\<close> (printed 0.49999999999999994), and from (0, 0) to (10, 10),
  with the derived control point (3, 7), the recorded midpoint is
  (3.999999999999999, 5.999999999999999), not the point (4, 6) that the curve has at 0.5.
\<close>

theorem midpoint_98_steps:
  "middlePoint (snd (getPolylinePoints (new_curve \<lparr>lat = Fin 0, lng = Fin 0\<rparr> \<lparr>lat = Fin 10, lng = Fin 10\<rparr>
          (QuadraticBezierLine_defaults\<lparr>steps := 98\<rparr>))))
     = Some \<lparr>lat = Fin (4503599627370495 / 1125899906842624),
             lng = Fin (6755399441055743 / 1125899906842624)\<rparr> \<and>
   getPoint (new_curve \<lparr>lat = Fin 0, lng = Fin 0\<rparr> \<lparr>lat = Fin 10, lng = Fin 10\<rparr>
          (QuadraticBezierLine_defaults\<lparr>steps := 98\<rparr>)) (Fin (1 / 2))
     = \<lparr>lat = Fin 4, lng = Fin 6\<rparr> \<and>
   middlePoint (snd (getPolylinePoints (new_curve \<lparr>lat = Fin 0, lng = Fin 0\<rparr> \<lparr>lat = Fin 10, lng = Fin 10\<rparr>
          (QuadraticBezierLine_defaults\<lparr>steps := 98\<rparr>))))
     \<noteq> Some (getPoint (new_curve \<lparr>lat = Fin 0, lng = Fin 0\<rparr> \<lparr>lat = Fin 10, lng = Fin 10\<rparr>
          (QuadraticBezierLine_defaults\<lparr>steps := 98\<rparr>)) (Fin (1 / 2)))"
proof -
  have "middlePoint (snd (getPolylinePoints (new_curve \<lparr>lat = Fin 0, lng = Fin 0\<rparr> \<lparr>lat = Fin 10, lng = Fin 10\<rparr>
          (QuadraticBezierLine_defaults\<lparr>steps := 98\<rparr>))))
     = Some \<lparr>lat = Fin (4503599627370495 / 1125899906842624),
             lng = Fin (6755399441055743 / 1125899906842624)\<rparr>"
    by (subst sampled_middle) (simp_all add: example_fields effective_steps_examples middle_sample_98)
  then show ?thesis by (simp add: half_sample_98)
qed

text \<open>
  C6, amended: the recorded midpoint is the sample at index \<open>n / 2\<close>, \<open>n\<close> the effective
  step count, that is the curve evaluated at the parameter \<open>(n / 2) * (1 / n)\<close>; it equals
  the curve evaluated at 0.5 whenever that product evaluates to 0.5 (as it does for the
  default 20 steps).
\<close>

theorem midpoint_sampled:
  assumes "points self = None"
  shows "middlePoint (snd (getPolylinePoints self))
      = Some (fst (getPolylinePoints self) ! (effective_steps (steps (opts self)) div 2)) \<and>
    fst (getPolylinePoints self) ! (effective_steps (steps (opts self)) div 2)
      = getPoint self (param (effective_steps (steps (opts self)) div 2)
                             (effective_steps (steps (opts self)))) \<and>
    (param (effective_steps (steps (opts self)) div 2) (effective_steps (steps (opts self)))
        = Fin (1 / 2) \<longrightarrow>
     middlePoint (snd (getPolylinePoints self)) = Some (getPoint self (Fin (1 / 2))))"
  using sampled_nth[OF assms, of "effective_steps (steps (opts self)) div 2"] sampled_middle[OF assms]
  by simp

theorem midpoint_sampled_witness:
  "middlePoint (snd (getPolylinePoints (new_curve \<lparr>lat = Fin 0, lng = Fin 0\<rparr>
        \<lparr>lat = Fin 10, lng = Fin 10\<rparr> QuadraticBezierLine_defaults)))
     = Some (getPoint (new_curve \<lparr>lat = Fin 0, lng = Fin 0\<rparr> \<lparr>lat = Fin 10, lng = Fin 10\<rparr>
          QuadraticBezierLine_defaults) (Fin (1 / 2)))"
proof -
  let ?s = "new_curve \<lparr>lat = Fin 0, lng = Fin 0\<rparr> \<lparr>lat = Fin 10, lng = Fin 10\<rparr>
          QuadraticBezierLine_defaults"
  have "points ?s = None" by (simp add: new_curve_fields)
  from midpoint_sampled[OF this] show ?thesis
    by (auto simp: new_curve_fields defaults_fields effective_steps_examples param_10_20)
qed

text \<open>
  C7, as stated: for all endpoints and every factor the derived control point is
  \<open>((m.lng - to.lng) * curveFactor + m.lat, (to.lat - m.lat) * curveFactor + m.lng)\<close>,
  \<open>m\<close> the arithmetic midpoint, and in particular with the factor 0 it reduces to \<open>m\<close>.
  The reduction fails where the arithmetic overflows. For \<open>from = to = (2\<^sup>1\<^sup>0\<^sup>2\<^sup>3, 0)\<close>, a pair
  of finite binary64 values, the sum of the latitudes is \<open>Infinity\<close>, so \<open>m\<close> is
  \<open>(Infinity, 0)\<close>; the difference \<open>to.lat - m.lat\<close> is \<open>-Infinity\<close>, its product with
  the factor 0 is NaN, and the control point is \<open>(Infinity, NaN)\<close>, which is not \<open>m\<close>.
\<close>

theorem zero_factor_overflow:
  "round64 (2 ^ 1023) = Fin (2 ^ 1023) \<and>
   calculateControlPoint \<lparr>lat = Fin (2 ^ 1023), lng = Fin 0\<rparr> \<lparr>lat = Fin (2 ^ 1023), lng = Fin 0\<rparr>
     (QuadraticBezierLine_defaults\<lparr>curveFactor := Fin 0\<rparr>) = \<lparr>lat = PInf, lng = NaN\<rparr> \<and>
   spec_midpoint \<lparr>lat = Fin (2 ^ 1023), lng = Fin 0\<rparr> \<lparr>lat = Fin (2 ^ 1023), lng = Fin 0\<rparr>
     = \<lparr>lat = PInf, lng = Fin 0\<rparr> \<and>
   calculateControlPoint \<lparr>lat = Fin (2 ^ 1023), lng = Fin 0\<rparr> \<lparr>lat = Fin (2 ^ 1023), lng = Fin 0\<rparr>
     (QuadraticBezierLine_defaults\<lparr>curveFactor := Fin 0\<rparr>)
     \<noteq> spec_midpoint \<lparr>lat = Fin (2 ^ 1023), lng = Fin 0\<rparr> \<lparr>lat = Fin (2 ^ 1023), lng = Fin 0\<rparr>"
proof -
  have b: "(2::rat) powi 1024 \<le> 2 * 2 ^ 1023" by simp
  show ?thesis
    by (simp only: round64_2_1023 overflow_control[OF b]) simp
qed

text \<open>
  C7, amended: for all endpoints and every factor the derived control point is the
  spec's, \<open>((m.lng - to.lng) * curveFactor + m.lat, (to.lat - m.lat) * curveFactor + m.lng)\<close>
  with \<open>m\<close> the arithmetic midpoint, each operation rounded as the code rounds it. With
  the factor 0 it is \<open>m\<close> whenever the two differences \<open>m.lng - to.lng\<close> and
  \<open>to.lat - m.lat\<close> are finite, and for a midpoint without a NaN coordinate only then;
  they are finite for well-formed endpoints (finite binary64 values of magnitude at most
  \<open>2\<^sup>1\<^sup>0\<^sup>2\<^sup>1\<close>).
\<close>

theorem calculateControlPoint_refines_spec:
  "calculateControlPoint from to opts' = spec_resolveControlPoint from to (curveFactor opts') \<and>
   (curveFactor opts' = Fin 0 \<and>
    finite_num (jsub (lng (spec_midpoint from to)) (lng to)) \<and>
    finite_num (jsub (lat to) (lat (spec_midpoint from to))) \<longrightarrow>
      calculateControlPoint from to opts' = spec_midpoint from to) \<and>
   (curveFactor opts' = Fin 0 \<and>
    lat (spec_midpoint from to) \<noteq> NaN \<and> lng (spec_midpoint from to) \<noteq> NaN \<and>
    calculateControlPoint from to opts' = spec_midpoint from to \<longrightarrow>
      finite_num (jsub (lng (spec_midpoint from to)) (lng to)) \<and>
      finite_num (jsub (lat to) (lat (spec_midpoint from to)))) \<and>
   (wf_latlng from \<and> wf_latlng to \<and> curveFactor opts' = Fin 0 \<longrightarrow>
      calculateControlPoint from to opts' = spec_midpoint from to)"
proof -
  have f: "calculateControlPoint from to opts' = spec_resolveControlPoint from to (curveFactor opts')"
    by (rule calculateControlPoint_spec)
  have nn: "lat (spec_midpoint from to) \<noteq> NaN \<and> lng (spec_midpoint from to) \<noteq> NaN"
    if "finite_num (jsub (lng (spec_midpoint from to)) (lng to))"
      "finite_num (jsub (lat to) (lat (spec_midpoint from to)))"
    using jsub_finite_D[OF that(1)] jsub_finite_D[OF that(2)] by (auto simp: finite_num_def)
  show ?thesis
    using zero_factor_iff[of "from" to] nn zero_factor[of "from" to]
    by (auto simp: f)
qed

theorem calculateControlPoint_refines_spec_witness:
  "calculateControlPoint \<lparr>lat = Fin 0, lng = Fin 0\<rparr> \<lparr>lat = Fin 10, lng = Fin 10\<rparr>
      (QuadraticBezierLine_defaults\<lparr>curveFactor := Fin 0\<rparr>)
     = spec_midpoint \<lparr>lat = Fin 0, lng = Fin 0\<rparr> \<lparr>lat = Fin 10, lng = Fin 10\<rparr> \<and>
   spec_midpoint \<lparr>lat = Fin 0, lng = Fin 0\<rparr> \<lparr>lat = Fin 10, lng = Fin 10\<rparr>
     = \<lparr>lat = Fin 5, lng = Fin 5\<rparr> \<and>
   finite_num (jsub (lng (spec_midpoint \<lparr>lat = Fin 0, lng = Fin 0\<rparr> \<lparr>lat = Fin 10, lng = Fin 10\<rparr>)) (Fin 10)) \<and>
   finite_num (jsub (Fin 10) (lat (spec_midpoint \<lparr>lat = Fin 0, lng = Fin 0\<rparr> \<lparr>lat = Fin 10, lng = Fin 10\<rparr>)))"
proof -
  have w: "wf_latlng \<lparr>lat = Fin 0, lng = Fin 0\<rparr>" "wf_latlng \<lparr>lat = Fin 10, lng = Fin 10\<rparr>"
    by (simp_all add: wf_latlng_def coord_0 coord_10)
  have m: "lat \<lparr>lat = Fin 5, lng = Fin 5\<rparr> \<noteq> NaN" "lng \<lparr>lat = Fin 5, lng = Fin 5\<rparr> \<noteq> NaN" by simp_all
  from w m calculateControlPoint_refines_spec[of "\<lparr>lat = Fin 0, lng = Fin 0\<rparr>"
      "\<lparr>lat = Fin 10, lng = Fin 10\<rparr>" "QuadraticBezierLine_defaults\<lparr>curveFactor := Fin 0\<rparr>"]
  show ?thesis by (auto simp: midpoint_0_10)
qed

text \<open>
  C8. \<open>getPolylinePoints\<close> is idempotent: once the sequence is stored on the curve, a
  call returns the stored sequence and leaves the curve as it is, so the sequence is
  computed at most once; after any call the sequence returned is the one stored, and a
  second call returns it again.
\<close>

theorem getPolylinePoints_idempotent:
  "(points self = Some ps \<longrightarrow> getPolylinePoints self = (ps, self)) \<and>
   (case getPolylinePoints self of
      (p1, self1) \<Rightarrow> points self1 = Some p1 \<and> getPolylinePoints self1 = (p1, self1))"
proof (cases "points self")
  case None
  show ?thesis
    by (simp add: None getPolylinePoints_fresh[OF None] getPolylinePoints_cached_eq del: upt_Suc)
next
  case (Some a)
  then show ?thesis by (simp add: getPolylinePoints_cached_eq)
qed

theorem getPolylinePoints_idempotent_witness:
  "getPolylinePoints (QuadraticBezierLine \<lparr>lat = Fin 0, lng = Fin 0\<rparr> \<lparr>lat = Fin 10, lng = Fin 10\<rparr> None)
     = (latlngs (the (overlay (QuadraticBezierLine \<lparr>lat = Fin 0, lng = Fin 0\<rparr> \<lparr>lat = Fin 10, lng = Fin 10\<rparr> None))),
        QuadraticBezierLine \<lparr>lat = Fin 0, lng = Fin 0\<rparr> \<lparr>lat = Fin 10, lng = Fin 10\<rparr> None)"
proof -
  let ?c = "QuadraticBezierLine \<lparr>lat = Fin 0, lng = Fin 0\<rparr> \<lparr>lat = Fin 10, lng = Fin 10\<rparr> None"
  have "points ?c = Some (latlngs (the (overlay ?c)))"
    by (simp add: QuadraticBezierLine_eq Let_def del: upt_Suc)
  with getPolylinePoints_idempotent[of ?c "latlngs (the (overlay ?c))"] show ?thesis by simp
qed

text \<open>
  C9, as stated: \<open>mergeOptions\<close> returns the defaults when the options are absent, and
  otherwise an object whose keys are exactly the keys of the defaults, each mapped to the
  caller's value when that is truthy and to the default otherwise. It does not always
  return: when the defaults have an own property named \<open>hasOwnProperty\<close>, the test
  \<open>defaults.hasOwnProperty(attr)\<close> calls that value and throws a \<open>TypeError\<close>. And the keys
  are not always those of the defaults: for an own key \<open>__proto__\<close> the assignment
  \<open>o[attr] = ...\<close> reaches the setter of \<open>Object.prototype\<close> and creates no property.
\<close>

theorem mergeOptions_throws:
  "mergeOptions (Some []) [(''hasOwnProperty'', JNum (Fin 1))] = Inl TypeError \<and>
   mergeOptions (Some []) [(''__proto__'', JNum (Fin 1)), (''b'', JNum (Fin 2))]
     = Inr [(''b'', Data (JNum (Fin 2)))]"
  by (simp add: call_hasOwnProperty_def set_prop_def get_prop_def js_or_def object_prototype_def)

text \<open>
  C9, amended: \<open>mergeOptions\<close> returns the defaults when the options are absent. Otherwise,
  when the defaults have an own property named \<open>hasOwnProperty\<close> it throws a \<open>TypeError\<close>;
  when they have none, it returns an object whose keys are the keys of the defaults other
  than \<open>__proto__\<close>, each once, and a key maps to \<open>opts[key]\<close> when that is truthy and to
  the default otherwise, where \<open>opts[key]\<close> is read through the prototype chain. So caller
  values that are falsy (\<open>opacity = 0\<close>, \<open>curveFactor = 0\<close>, \<open>steps = 0\<close>,
  \<open>color = ""\<close>) are replaced by the defaults and a key the defaults do not have is
  dropped; and for a default key that names a member of \<open>Object.prototype\<close>, such as
  \<open>toString\<close>, a caller who does not set it gets the inherited member, not the default.
\<close>

theorem mergeOptions_spec:
  "mergeOptions None dflt = Inr (map (\<lambda>(attr, v). (attr, Data v)) dflt) \<and>
   (map_of dflt ''hasOwnProperty'' \<noteq> None \<longrightarrow>
      mergeOptions (Some user) dflt = Inl TypeError) \<and>
   (map_of dflt ''hasOwnProperty'' = None \<longrightarrow>
      (\<exists>r. mergeOptions (Some user) dflt = Inr r \<and>
           fst ` set r = fst ` set dflt - {''__proto__''} \<and>
           distinct (map fst r) \<and>
           map_of r attr =
             (if attr \<in> fst ` set dflt \<and> attr \<noteq> ''__proto__''
              then Some (if truthy_any (get_prop user attr) then get_prop user attr
                         else get_prop dflt attr)
              else None))) \<and>
   mergeOptions
     (Some [(''opacity'', JNum (Fin 0)), (''curveFactor'', JNum (Fin 0)), (''steps'', JNum (Fin 0)),
            (''color'', JStr ''''), (''dashed'', JBool True)])
     (options_object QuadraticBezierLine_defaults)
     = Inr (map (\<lambda>(attr, v). (attr, Data v)) (options_object QuadraticBezierLine_defaults)) \<and>
   mergeOptions (Some []) [(''toString'', JNull), (''b'', JNum (Fin 1))]
     = Inr [(''toString'', FromPrototype ''toString''), (''b'', Data (JNum (Fin 1)))]"
proof -
  have ex: "mergeOptions
     (Some [(''opacity'', JNum (Fin 0)), (''curveFactor'', JNum (Fin 0)), (''steps'', JNum (Fin 0)),
            (''color'', JStr ''''), (''dashed'', JBool True)])
     (options_object QuadraticBezierLine_defaults)
     = Inr (map (\<lambda>(attr, v). (attr, Data v)) (options_object QuadraticBezierLine_defaults))"
    by (simp add: options_object_def call_hasOwnProperty_def set_prop_def get_prop_def js_or_def
        object_prototype_def)
  have ts: "mergeOptions (Some []) [(''toString'', JNull), (''b'', JNum (Fin 1))]
     = Inr [(''toString'', FromPrototype ''toString''), (''b'', Data (JNum (Fin 1)))]"
    by (simp add: call_hasOwnProperty_def set_prop_def get_prop_def js_or_def object_prototype_def)
  have none: "mergeOptions None dflt = Inr (map (\<lambda>(attr, v). (attr, Data v)) dflt)" by simp
  have thr: "map_of dflt ''hasOwnProperty'' \<noteq> None \<longrightarrow>
      mergeOptions (Some user) dflt = Inl TypeError"
  proof
    assume h: "map_of dflt ''hasOwnProperty'' \<noteq> None"
    then have "dflt \<noteq> []" by auto
    with h show "mergeOptions (Some user) dflt = Inl TypeError" by (simp add: merge_loop_throws)
  qed
  have ret: "map_of dflt ''hasOwnProperty'' = None \<longrightarrow>
      (\<exists>r. mergeOptions (Some user) dflt = Inr r \<and>
           fst ` set r = fst ` set dflt - {''__proto__''} \<and>
           distinct (map fst r) \<and>
           map_of r attr =
             (if attr \<in> fst ` set dflt \<and> attr \<noteq> ''__proto__''
              then Some (if truthy_any (get_prop user attr) then get_prop user attr
                         else get_prop dflt attr)
              else None))"
  proof
    assume h: "map_of dflt ''hasOwnProperty'' = None"
    let ?r = "foldl (\<lambda>o' (attr, _). set_prop o' attr (js_or (get_prop user attr) (get_prop dflt attr))) [] dflt"
    have "mergeOptions (Some user) dflt = Inr ?r" using h by (simp add: merge_loop_returns)
    moreover have "fst ` set ?r = fst ` set dflt - {''__proto__''}" by (simp add: merge_fold_keys)
    moreover have "distinct (map fst ?r)" by (simp add: merge_fold_distinct)
    moreover have "map_of ?r attr =
             (if attr \<in> fst ` set dflt \<and> attr \<noteq> ''__proto__''
              then Some (if truthy_any (get_prop user attr) then get_prop user attr
                         else get_prop dflt attr)
              else None)"
      by (simp add: merge_fold_lookup js_or_def)
    ultimately show "\<exists>r. mergeOptions (Some user) dflt = Inr r \<and>
           fst ` set r = fst ` set dflt - {''__proto__''} \<and>
           distinct (map fst r) \<and>
           map_of r attr =
             (if attr \<in> fst ` set dflt \<and> attr \<noteq> ''__proto__''
              then Some (if truthy_any (get_prop user attr) then get_prop user attr
                         else get_prop dflt attr)
              else None)"
      by (intro exI conjI)
  qed
  show ?thesis by (intro conjI none thr ret ex ts)
qed

theorem mergeOptions_spec_witness:
  "(\<exists>r. mergeOptions (Some [(''opacity'', JNum (Fin 0)), (''dashed'', JBool True)])
           (options_object QuadraticBezierLine_defaults) = Inr r \<and>
        fst ` set r = {''color'', ''opacity'', ''weight'', ''steps'', ''controlPoint'', ''curveFactor''} \<and>
        map_of r ''opacity'' = Some (Data (JNum (opacity QuadraticBezierLine_defaults))) \<and>
        map_of r ''dashed'' = None) \<and>
   mergeOptions (Some [(''opacity'', JNum (Fin 0))])
     [(''opacity'', JNum (Fin 1)), (''hasOwnProperty'', JBool True)] = Inl TypeError"
proof -
  have a: "map_of (options_object QuadraticBezierLine_defaults) ''hasOwnProperty'' = None"
    by (rule defaults_object_no_shadow)
  have b: "map_of [(''opacity'', JNum (Fin 1)), (''hasOwnProperty'', JBool True)] ''hasOwnProperty'' \<noteq> None"
    by simp
  have k: "fst ` set (options_object QuadraticBezierLine_defaults) - {''__proto__''}
      = {''color'', ''opacity'', ''weight'', ''steps'', ''controlPoint'', ''curveFactor''}"
    by (auto simp: options_object_def)
  from a mergeOptions_spec[of "options_object QuadraticBezierLine_defaults"
      "[(''opacity'', JNum (Fin 0)), (''dashed'', JBool True)]" "''opacity''"]
  obtain r where r: "mergeOptions (Some [(''opacity'', JNum (Fin 0)), (''dashed'', JBool True)])
           (options_object QuadraticBezierLine_defaults) = Inr r"
      "fst ` set r = fst ` set (options_object QuadraticBezierLine_defaults) - {''__proto__''}"
      "map_of r ''opacity'' = (if ''opacity'' \<in> fst ` set (options_object QuadraticBezierLine_defaults) \<and> ''opacity'' \<noteq> ''__proto__''
              then Some (if truthy_any (get_prop [(''opacity'', JNum (Fin 0)), (''dashed'', JBool True)] ''opacity'') then get_prop [(''opacity'', JNum (Fin 0)), (''dashed'', JBool True)] ''opacity''
                         else get_prop (options_object QuadraticBezierLine_defaults) ''opacity'')
              else None)"
    by blast
  have o: "map_of r ''opacity'' = Some (Data (JNum (opacity QuadraticBezierLine_defaults)))"
    by (simp add: r(3) options_object_def get_prop_def)
  have "''dashed'' \<notin> fst ` set r" by (simp add: r(2) k)
  then have d: "map_of r ''dashed'' = None" by (simp add: map_of_eq_None_iff)
  from b mergeOptions_spec[of "[(''opacity'', JNum (Fin 1)), (''hasOwnProperty'', JBool True)]"
      "[(''opacity'', JNum (Fin 0))]" "''opacity''"]
  have t: "mergeOptions (Some [(''opacity'', JNum (Fin 0))])
     [(''opacity'', JNum (Fin 1)), (''hasOwnProperty'', JBool True)] = Inl TypeError"
    by blast
  from r(1) r(2) k o d t show ?thesis by simp
qed

text \<open>
  C10, as stated: when \<open>from\<close> equals \<open>to\<close>, every point of the sequence equals
  \<open>from\<close>, for every step count. For \<open>from = to = (1, 1)\<close> the constructor derives the
  control point (1, 1), yet the second of its 21 points is
  \<open>(1 - 2\<^sup>-\<^sup>5\<^sup>3, 1 - 2\<^sup>-\<^sup>5\<^sup>3)\<close> (printed 0.9999999999999999): the three rounded weights
  of the blend do not add up to 1.
  With \<open>steps = 0\<close> the only point is (NaN, NaN).
\<close>

theorem equal_endpoints_sample_differs:
  "control (QuadraticBezierLine \<lparr>lat = Fin 1, lng = Fin 1\<rparr> \<lparr>lat = Fin 1, lng = Fin 1\<rparr> None)
     = \<lparr>lat = Fin 1, lng = Fin 1\<rparr> \<and>
   map_option (\<lambda>ps. ps ! 1)
     (points (QuadraticBezierLine \<lparr>lat = Fin 1, lng = Fin 1\<rparr> \<lparr>lat = Fin 1, lng = Fin 1\<rparr> None))
     = Some \<lparr>lat = Fin (9007199254740991 / 9007199254740992),
             lng = Fin (9007199254740991 / 9007199254740992)\<rparr> \<and>
   map_option (\<lambda>ps. ps ! 1)
     (points (QuadraticBezierLine \<lparr>lat = Fin 1, lng = Fin 1\<rparr> \<lparr>lat = Fin 1, lng = Fin 1\<rparr> None))
     \<noteq> Some (from_pt (QuadraticBezierLine \<lparr>lat = Fin 1, lng = Fin 1\<rparr> \<lparr>lat = Fin 1, lng = Fin 1\<rparr> None)) \<and>
   fst (getPolylinePoints (new_curve \<lparr>lat = Fin 1, lng = Fin 1\<rparr> \<lparr>lat = Fin 1, lng = Fin 1\<rparr>
          (QuadraticBezierLine_defaults\<lparr>steps := 0\<rparr>))) = [\<lparr>lat = NaN, lng = NaN\<rparr>]"
proof -
  have z: "fst (getPolylinePoints (new_curve \<lparr>lat = Fin 1, lng = Fin 1\<rparr> \<lparr>lat = Fin 1, lng = Fin 1\<rparr>
          (QuadraticBezierLine_defaults\<lparr>steps := 0\<rparr>))) = [\<lparr>lat = NaN, lng = NaN\<rparr>]"
    by (simp add: getPolylinePoints_fresh new_curve_fields effective_steps_examples param_0_0 getPoint_NaN)
  have g: "getPoint (new_curve \<lparr>lat = Fin 1, lng = Fin 1\<rparr> \<lparr>lat = Fin 1, lng = Fin 1\<rparr>
      QuadraticBezierLine_defaults) (param (Suc 0) 20)
   = \<lparr>lat = Fin (9007199254740991 / 9007199254740992), lng = Fin (9007199254740991 / 9007199254740992)\<rparr>"
    using second_sample_ones by simp
  show ?thesis
    by (simp add: QuadraticBezierLine_eq Let_def ones_fields g z del: upt_Suc)
qed

text \<open>
  C10, amended: when \<open>from\<close> equals \<open>to\<close>, a well-formed coordinate, and the curvature
  factor is finite, the derived control point equals \<open>from\<close>; with at least one step the
  first point of the sequence equals \<open>from\<close>, and so does the last whenever
  \<open>n * (1 / n)\<close> evaluates to 1 for the effective step count \<open>n\<close>. The midpoint, which
  is the point at index \<open>n / 2\<close>, equals \<open>from\<close> whenever \<open>(n / 2) * (1 / n)\<close> evaluates
  to \<open>0.5\<close> and each coordinate of \<open>from\<close> is zero or of magnitude at least \<open>2\<^sup>-\<^sup>1\<^sup>0\<^sup>2\<^sup>0\<close>:
  the weights at one half are exactly \<open>1/4\<close>, \<open>1/2\<close> and \<open>1/4\<close>, and the rounded sum
  \<open>(x/4 + x/2) + x/4\<close> is \<open>x\<close>. The other points are the rounded blend of three equal
  coordinates.
\<close>

theorem equal_endpoints:
  assumes "wf_latlng p" and "finite_num (curveFactor opts')"
    and "controlPoint opts' = None" and "1 \<le> steps opts'"
  shows "calculateControlPoint p p opts' = p \<and>
    control (new_curve p p opts') = p \<and>
    fst (getPolylinePoints (new_curve p p opts')) ! 0 = p \<and>
    (param (effective_steps (steps opts')) (effective_steps (steps opts')) = Fin 1 \<longrightarrow>
       fst (getPolylinePoints (new_curve p p opts')) ! effective_steps (steps opts') = p) \<and>
    (normal_latlng p \<and>
     param (effective_steps (steps opts') div 2) (effective_steps (steps opts')) = Fin (1 / 2) \<longrightarrow>
       middlePoint (snd (getPolylinePoints (new_curve p p opts'))) = Some p \<and>
       fst (getPolylinePoints (new_curve p p opts')) ! (effective_steps (steps opts') div 2) = p)"
proof -
  have c: "calculateControlPoint p p opts' = p"
    using assms(1,2) by (rule control_of_equal_endpoints)
  have s: "points (new_curve p p opts') = None" "from_pt (new_curve p p opts') = p"
    "to_pt (new_curve p p opts') = p" "control (new_curve p p opts') = p"
    "opts (new_curve p p opts') = opts'"
    by (simp_all add: new_curve_fields assms(3) c)
  have n: "1 \<le> effective_steps (steps opts')" using assms(4) by (simp add: effective_steps_def)
  have fin: "finite_latlng p" using assms(1) by (rule wf_finite)
  have "fst (getPolylinePoints (new_curve p p opts')) ! 0 = getPoint (new_curve p p opts') (Fin 0)"
    using sampled_nth[OF s(1), of 0] by (simp add: s param_0[OF n])
  then have first: "fst (getPolylinePoints (new_curve p p opts')) ! 0 = p"
    using assms(1) fin by (simp add: getPoint_at_0 s)
  have last: "fst (getPolylinePoints (new_curve p p opts')) ! effective_steps (steps opts')
      = getPoint (new_curve p p opts') (param (effective_steps (steps opts')) (effective_steps (steps opts')))"
    using sampled_nth[OF s(1), of "effective_steps (steps opts')"] by (simp add: s)
  have one: "getPoint (new_curve p p opts') (Fin 1) = p"
    using assms(1) fin by (simp add: getPoint_at_1 s)
  have mid: "middlePoint (snd (getPolylinePoints (new_curve p p opts')))
      = Some (getPoint (new_curve p p opts')
          (param (effective_steps (steps opts') div 2) (effective_steps (steps opts'))))"
    using sampled_middle[OF s(1)] by (simp only: s(5))
  have nth: "fst (getPolylinePoints (new_curve p p opts')) ! (effective_steps (steps opts') div 2)
      = getPoint (new_curve p p opts')
          (param (effective_steps (steps opts') div 2) (effective_steps (steps opts')))"
    using sampled_nth[OF s(1), of "effective_steps (steps opts') div 2"] by (simp add: s)
  have half: "getPoint (new_curve p p opts') (Fin (1 / 2)) = p" if "normal_latlng p"
    using that s(2,4,3) by (rule getPoint_half_equal)
  from c s(4) first last one mid nth half show ?thesis by simp
qed

theorem equal_endpoints_witness:
  "calculateControlPoint \<lparr>lat = Fin 1, lng = Fin 1\<rparr> \<lparr>lat = Fin 1, lng = Fin 1\<rparr>
      QuadraticBezierLine_defaults = \<lparr>lat = Fin 1, lng = Fin 1\<rparr> \<and>
   fst (getPolylinePoints (new_curve \<lparr>lat = Fin 1, lng = Fin 1\<rparr> \<lparr>lat = Fin 1, lng = Fin 1\<rparr>
      QuadraticBezierLine_defaults)) ! 0 = \<lparr>lat = Fin 1, lng = Fin 1\<rparr> \<and>
   fst (getPolylinePoints (new_curve \<lparr>lat = Fin 1, lng = Fin 1\<rparr> \<lparr>lat = Fin 1, lng = Fin 1\<rparr>
      QuadraticBezierLine_defaults)) ! 20 = \<lparr>lat = Fin 1, lng = Fin 1\<rparr> \<and>
   middlePoint (snd (getPolylinePoints (new_curve \<lparr>lat = Fin 1, lng = Fin 1\<rparr> \<lparr>lat = Fin 1, lng = Fin 1\<rparr>
      QuadraticBezierLine_defaults))) = Some \<lparr>lat = Fin 1, lng = Fin 1\<rparr> \<and>
   fst (getPolylinePoints (new_curve \<lparr>lat = Fin 1, lng = Fin 1\<rparr> \<lparr>lat = Fin 1, lng = Fin 1\<rparr>
      QuadraticBezierLine_defaults)) ! 10 = \<lparr>lat = Fin 1, lng = Fin 1\<rparr>"
proof -
  have a: "wf_latlng \<lparr>lat = Fin 1, lng = Fin 1\<rparr>" by (simp add: wf_latlng_def coord_1)
  have b: "controlPoint QuadraticBezierLine_defaults = None" "1 \<le> steps QuadraticBezierLine_defaults"
    by (simp_all add: defaults_fields(1,2))
  have c: "normal_latlng \<lparr>lat = Fin 1, lng = Fin 1\<rparr>" by (simp add: normal_latlng_def coord_1_normal)
  from c equal_endpoints[OF a default_factor_finite b] show ?thesis
    by (auto simp: defaults_fields(2) effective_steps_examples param_20_20 param_10_20)
qed

end
